theory Spec2Isabelle
  imports Main "HOL-Library.AList" "HOL-Library.List_Lexorder" "HOL-Library.Product_Lexorder"
begin

section \<open>Python values\<close>

text \<open>
  A Python \<open>str\<close> is a sequence of Unicode code points, compared code point by code
  point; it is modelled as a list of naturals. \<open>u\<close> turns an ASCII literal into such a
  string.
\<close>

type_synonym ustring = "nat list"

definition u :: "string \<Rightarrow> ustring" where
  "u s = map of_char s"

text \<open>
  The whitespace of \<open>str.strip()\<close>, \<open>str.isspace()\<close> and of \<open>\\s\<close> in a \<open>str\<close>
  pattern: the code points CPython lists as whitespace.
\<close>

definition is_space :: "nat \<Rightarrow> bool" where
  "is_space c \<longleftrightarrow>
     (9 \<le> c \<and> c \<le> 13) \<or> (28 \<le> c \<and> c \<le> 32) \<or> c = 133 \<or> c = 160 \<or> c = 5760 \<or>
     (8192 \<le> c \<and> c \<le> 8202) \<or> c = 8232 \<or> c = 8233 \<or> c = 8239 \<or> c = 8287 \<or> c = 12288"

text \<open>
  \<open>str.lower()\<close>, restricted to the ASCII letters: code points from 128 on are left as
  they are (the case tables of Unicode are not part of the model).
\<close>

definition lower_cp :: "nat \<Rightarrow> nat" where
  "lower_cp c = (if 65 \<le> c \<and> c \<le> 90 then c + 32 else c)"

definition lower :: "ustring \<Rightarrow> ustring" where
  "lower s = map lower_cp s"

definition strip :: "ustring \<Rightarrow> ustring" where
  "strip s = rev (dropWhile is_space (rev (dropWhile is_space s)))"

text \<open>
  \<open>\\d\<close>, restricted to the ASCII digits, and \<open>int\<close> of a string of digits (without
  the bound that newer versions of Python put on the number of digits).
\<close>

definition is_digit :: "nat \<Rightarrow> bool" where
  "is_digit c \<longleftrightarrow> 48 \<le> c \<and> c \<le> 57"

definition int_of_digits :: "ustring \<Rightarrow> nat" where
  "int_of_digits ds = foldl (\<lambda>acc c. 10 * acc + (c - 48)) 0 ds"

text \<open>
  The values a worksheet cell can hold. \<open>'f\<close> is the type of Python floats; nothing is
  assumed about its arithmetic beyond what a definition's type says. \<open>POther\<close> stands
  for any other object, such as a date or a time.
\<close>

datatype 'f pyval =
    PNone
  | PStr ustring
  | PInt int
  | PFloat 'f
  | PBool bool
  | POther nat

text \<open>Truthiness, as \<open>or\<close> and \<open>if\<close> test it.\<close>

fun truthy :: "('f::zero) pyval \<Rightarrow> bool" where
  "truthy PNone = False"
| "truthy (PStr s) = (s \<noteq> [])"
| "truthy (PInt i) = (i \<noteq> 0)"
| "truthy (PFloat f) = (f \<noteq> 0)"
| "truthy (PBool b) = b"
| "truthy (POther _) = True"

text \<open>
  The builtins the transform calls on cell values, taken as parameters: \<open>float(v)\<close>
  (\<open>None\<close> where Python raises \<open>TypeError\<close> or \<open>ValueError\<close>, the two exceptions
  that \<open>parse_quantity\<close> catches; the \<open>OverflowError\<close> of an integer too large for
  a float is left out), \<open>str(v)\<close>,
  \<open>float.is_integer\<close>, \<open>int\<close> of a float and \<open>sum\<close> of a list of floats that is
  not empty.
\<close>

record 'f builtins =
  py_float :: "'f pyval \<Rightarrow> 'f option"
  py_str :: "'f pyval \<Rightarrow> ustring"
  is_integer :: "'f \<Rightarrow> bool"
  py_int :: "'f \<Rightarrow> int"
  py_sum :: "'f list \<Rightarrow> 'f"

section \<open>Header normalisation\<close>

definition DESIRED_COLUMNS :: "ustring list" where
  "DESIRED_COLUMNS = [u ''order_id'', u ''product_name'', u ''quantity'', u ''total_quantity'']"

definition HEADER_ALIASES :: "(ustring \<times> ustring) list" where
  "HEADER_ALIASES =
    [(u ''orderid'', u ''order_id''),
     (u ''order_id'', u ''order_id''),
     (u ''order id'', u ''order_id''),
     (u ''id'', u ''order_id''),
     (u ''qty'', u ''quantity''),
     (u ''quantity'', u ''quantity''),
     (u ''totalquantity'', u ''total_quantity''),
     (u ''total_quantity'', u ''total_quantity''),
     (u ''total quantity'', u ''total_quantity''),
     (u ''total_qty'', u ''total_quantity'')]"

text \<open>\<open>re.sub(r"[\\s_-]+", "", s)\<close>: every whitespace, underscore and hyphen is deleted.\<close>

definition is_sep :: "nat \<Rightarrow> bool" where
  "is_sep c \<longleftrightarrow> is_space c \<or> c = 95 \<or> c = 45"

definition header_key :: "ustring \<Rightarrow> ustring" where
  "header_key name = filter (\<lambda>c. \<not> is_sep c) (lower (strip name))"

definition dict_get :: "('k \<times> 'v) list \<Rightarrow> 'k \<Rightarrow> 'v \<Rightarrow> 'v" where
  "dict_get d k dflt = (case map_of d k of None \<Rightarrow> dflt | Some v \<Rightarrow> v)"

definition normalize_header :: "ustring \<Rightarrow> ustring" where
  "normalize_header name = (let key = header_key name in dict_get HEADER_ALIASES key key)"


section \<open>Header resolution\<close>

text \<open>
  \<open>re.match\<close> of a literal prefix followed by \<open>(\\d*)\<close>: the match is anchored at the
  start only, and the group is the longest run of digits after the prefix.
\<close>

definition match_prefix_digits :: "ustring \<Rightarrow> ustring \<Rightarrow> ustring option" where
  "match_prefix_digits p key =
     (if take (length p) key = p then Some (takeWhile is_digit (drop (length p) key)) else None)"

definition name_match :: "ustring \<Rightarrow> ustring option" where
  "name_match key = match_prefix_digits (u ''productname'') key"

definition qty_match :: "ustring \<Rightarrow> ustring option" where
  "qty_match key =
     (case match_prefix_digits (u ''productquantity'') key of
        Some ds \<Rightarrow> Some ds
      | None \<Rightarrow> match_prefix_digits (u ''quantity'') key)"

text \<open>\<open>int(group or "1")\<close>\<close>

definition group_num :: "ustring \<Rightarrow> nat" where
  "group_num ds = (if ds = [] then 1 else int_of_digits ds)"

text \<open>
  The exceptions of the transform. \<open>MissingOrderIdColumn\<close> and
  \<open>NoProductColumnsFound\<close> are both \<open>ValueError\<close> in the source, told apart by their
  messages: "Missing required column: id / order_id" and
  "No productName / productQuantity columns found.". \<open>IntDigitsLimitError\<close> is the
  \<open>ValueError\<close> of \<open>int\<close> on a string of more digits than the interpreter allows,
  and \<open>OverflowError\<close> the one of \<open>float\<close> on an integer beyond the range of a float.
\<close>

datatype error =
    FileNotFoundError
  | AttributeError
  | MissingOrderIdColumn
  | NoProductColumnsFound
  | IntDigitsLimitError
  | OverflowError

text \<open>\<open>v or ""\<close>\<close>

definition or_empty :: "('f::zero) pyval \<Rightarrow> 'f pyval" where
  "or_empty v = (if truthy v then v else PStr [])"

text \<open>
  \<open>normalize_header\<close> applied to any value, as the header loop calls it: \<open>.strip()\<close>
  exists on \<open>str\<close> only, every other truthy value raises \<open>AttributeError\<close>.
\<close>

definition normalize_header_any :: "('f::zero) pyval \<Rightarrow> error + ustring" where
  "normalize_header_any name =
     (case or_empty name of PStr s \<Rightarrow> Inr (normalize_header s) | _ \<Rightarrow> Inl AttributeError)"

record header_state =
  product_name_cols :: "(nat \<times> nat) list"
  quantity_cols :: "(nat \<times> nat) list"
  order_col :: "nat option"

definition header_init :: header_state where
  "header_init = \<lparr>product_name_cols = [], quantity_cols = [], order_col = None\<rparr>"

definition header_step :: "header_state \<Rightarrow> nat \<Rightarrow> ustring \<Rightarrow> header_state" where
  "header_step st idx key =
     (if key = u ''order_id'' then st\<lparr>order_col := Some idx\<rparr>
      else
        let st1 = (case name_match key of
                     Some ds \<Rightarrow> st\<lparr>product_name_cols :=
                                  AList.update (group_num ds) idx (product_name_cols st)\<rparr>
                   | None \<Rightarrow> st)
        in (case qty_match key of
              Some ds \<Rightarrow> st1\<lparr>quantity_cols :=
                            AList.update (group_num ds) idx (quantity_cols st1)\<rparr>
            | None \<Rightarrow> st1))"

fun header_loop :: "header_state \<Rightarrow> nat \<Rightarrow> ('f::zero) pyval list \<Rightarrow> error + header_state" where
  "header_loop st idx [] = Inr st"
| "header_loop st idx (c # cs) =
     (case normalize_header_any (or_empty c) of
        Inl e \<Rightarrow> Inl e
      | Inr key \<Rightarrow> header_loop (header_step st idx key) (Suc idx) cs)"

definition resolve_headers :: "('f::zero) pyval list \<Rightarrow> error + header_state" where
  "resolve_headers header_cells =
     (case header_loop header_init 0 header_cells of
        Inl e \<Rightarrow> Inl e
      | Inr st \<Rightarrow>
          if order_col st = None then Inl MissingOrderIdColumn
          else if product_name_cols st = [] \<and> quantity_cols st = [] then Inl NoProductColumnsFound
          else Inr st)"


section \<open>Row extraction and aggregation\<close>

definition parse_quantity :: "'f builtins \<Rightarrow> 'f pyval \<Rightarrow> 'f option" where
  "parse_quantity B v = (case v of PNone \<Rightarrow> None | _ \<Rightarrow> py_float B v)"

definition format_number :: "'f builtins \<Rightarrow> 'f option \<Rightarrow> 'f pyval" where
  "format_number B num =
     (case num of
        None \<Rightarrow> PNone
      | Some x \<Rightarrow> if is_integer B x then PInt (py_int B x) else PFloat x)"

text \<open>\<open>re.sub(r"\\s+", " ", s)\<close>: every maximal run of whitespace becomes one space.\<close>

function collapse_ws :: "ustring \<Rightarrow> ustring" where
  "collapse_ws [] = []"
| "collapse_ws (c # cs) =
     (if is_space c then 32 # collapse_ws (dropWhile is_space cs) else c # collapse_ws cs)"
  by pat_completeness auto
termination
  by (relation "measure length") (auto simp: length_dropWhile_le less_Suc_eq_le)

definition normalize_product_name :: "'f builtins \<Rightarrow> 'f pyval \<Rightarrow> ustring" where
  "normalize_product_name B name =
     (case name of PNone \<Rightarrow> [] | _ \<Rightarrow> collapse_ws (lower (strip (py_str B name))))"

record 'f item =
  product_key :: ustring
  order_id :: "'f pyval"
  product_name :: "'f pyval"
  quantity_display :: "'f pyval"
  row_index :: nat

record 'f extract_state =
  extracted_rows :: "'f item list"
  product_totals :: "(ustring \<times> 'f) list"
  product_has_numeric :: "(ustring \<times> bool) list"
  product_display_names :: "(ustring \<times> 'f pyval) list"

text \<open>\<open>row[i] if i is not None and i < len(row) else None\<close>\<close>

definition row_get :: "'f pyval list \<Rightarrow> nat option \<Rightarrow> 'f pyval" where
  "row_get row i = (case i of None \<Rightarrow> PNone | Some j \<Rightarrow> if j < length row then row ! j else PNone)"

text \<open>
  A \<open>dict\<close> keeps its keys in insertion order, and assigning to a key that is present
  keeps the key's place: an association list under \<open>AList.update\<close>.
\<close>

definition dict_setdefault :: "('k \<times> 'v) list \<Rightarrow> 'k \<Rightarrow> 'v \<Rightarrow> ('k \<times> 'v) list" where
  "dict_setdefault d k v = (if map_of d k = None then AList.update k v d else d)"

text \<open>The body of the loop over group indices, for one row and one index.\<close>

definition extract_group ::
  "('f::{zero,plus}) builtins \<Rightarrow> header_state \<Rightarrow> 'f pyval list \<Rightarrow> 'f pyval \<Rightarrow>
     'f extract_state \<Rightarrow> nat \<Rightarrow> 'f extract_state" where
  "extract_group B hs row oid st num =
     (let name_idx = map_of (product_name_cols hs) num;
          qty_idx = map_of (quantity_cols hs) num;
          pname = row_get row name_idx;
          qty_raw = row_get row qty_idx;
          qty_value = parse_quantity B qty_raw
      in if pname = PNone \<and> qty_raw = PNone then st
         else
           let pkey = normalize_product_name B pname;
               names = (if pkey \<noteq> [] \<and> map_of (product_display_names st) pkey = None
                        then AList.update pkey pname (product_display_names st)
                        else product_display_names st);
               totals = (case qty_value of
                           Some q \<Rightarrow> AList.update pkey (dict_get (product_totals st) pkey 0 + q)
                                      (product_totals st)
                         | None \<Rightarrow> dict_setdefault (product_totals st) pkey 0);
               has = (case qty_value of
                        Some q \<Rightarrow> AList.update pkey True (product_has_numeric st)
                      | None \<Rightarrow> product_has_numeric st)
           in \<lparr>extracted_rows = extracted_rows st @
                  [\<lparr>product_key = pkey, order_id = oid, product_name = pname,
                    quantity_display = (case qty_value of
                                          Some q \<Rightarrow> format_number B (Some q)
                                        | None \<Rightarrow> qty_raw),
                    row_index = length (extracted_rows st)\<rparr>],
               product_totals = totals,
               product_has_numeric = has,
               product_display_names = names\<rparr>)"

text \<open>\<open>sorted(set(product_name_cols) | set(quantity_cols))\<close>\<close>

definition group_nums :: "header_state \<Rightarrow> nat list" where
  "group_nums hs = sort (remdups (map fst (product_name_cols hs) @ map fst (quantity_cols hs)))"

definition extract_row ::
  "('f::{zero,plus}) builtins \<Rightarrow> header_state \<Rightarrow> 'f extract_state \<Rightarrow> 'f pyval list \<Rightarrow>
     'f extract_state" where
  "extract_row B hs st row =
     (let oid = row_get row (order_col hs)
      in if oid = PNone then st else foldl (extract_group B hs row oid) st (group_nums hs))"

definition extract_rows ::
  "('f::{zero,plus}) builtins \<Rightarrow> header_state \<Rightarrow> 'f pyval list list \<Rightarrow> 'f extract_state" where
  "extract_rows B hs data =
     foldl (extract_row B hs)
       \<lparr>extracted_rows = [], product_totals = [], product_has_numeric = [],
        product_display_names = []\<rparr> data"

section \<open>Grouping and output\<close>

text \<open>The key of \<open>extracted_rows.sort\<close>; \<open>"\\uffff"\<close> is the single code point 65535.\<close>

definition sort_key_item :: "'f builtins \<Rightarrow> 'f item \<Rightarrow> ustring \<times> ustring \<times> nat" where
  "sort_key_item B it =
     (if product_key it \<noteq> [] then product_key it else [65535],
      py_str B (order_id it), row_index it)"

definition sort_items :: "'f builtins \<Rightarrow> 'f item list \<Rightarrow> 'f item list" where
  "sort_items B its = sort_key (sort_key_item B) its"

definition total_for_product_key :: "'f builtins \<Rightarrow> 'f extract_state \<Rightarrow> ustring \<Rightarrow> 'f pyval" where
  "total_for_product_key B st pkey =
     (if dict_get (product_has_numeric st) pkey False
      then format_number B (map_of (product_totals st) pkey)
      else PNone)"

text \<open>
  A worksheet: its rows, as appended (row \<open>r\<close> of the sheet is \<open>rows ! (r - 1)\<close>), and the
  merged ranges as (start row, start column, end row, end column). Cell alignment and
  column widths are styling and are left out.
\<close>

record 'f sheet =
  title :: ustring
  rows :: "'f pyval list list"
  merged_cells :: "(nat \<times> nat \<times> nat \<times> nat) list"

definition sheet_append :: "'f sheet \<Rightarrow> 'f pyval list \<Rightarrow> 'f sheet" where
  "sheet_append sh r = sh\<lparr>rows := rows sh @ [r]\<rparr>"

text \<open>Assignment to the value of a cell of a row that has been appended.\<close>

definition sheet_set_cell :: "'f sheet \<Rightarrow> nat \<Rightarrow> nat \<Rightarrow> 'f pyval \<Rightarrow> 'f sheet" where
  "sheet_set_cell sh r c v = sh\<lparr>rows := (rows sh)[r - 1 := (rows sh ! (r - 1))[c - 1 := v]]\<rparr>"

definition merge_cells :: "'f sheet \<Rightarrow> nat \<Rightarrow> nat \<Rightarrow> nat \<Rightarrow> nat \<Rightarrow> 'f sheet" where
  "merge_cells sh r1 c1 r2 c2 = sh\<lparr>merged_cells := merged_cells sh @ [(r1, c1, r2, c2)]\<rparr>"

definition finalize_group ::
  "'f builtins \<Rightarrow> 'f extract_state \<Rightarrow> 'f sheet \<Rightarrow> ustring \<Rightarrow> nat \<Rightarrow> nat \<Rightarrow> 'f sheet" where
  "finalize_group B st sh pkey start_row end_row =
     (let sh1 = sheet_set_cell sh start_row 4 (total_for_product_key B st pkey)
      in if end_row > start_row then merge_cells sh1 start_row 4 end_row 4 else sh1)"

record 'f writer_state =
  current_product_key :: "ustring option"
  group_start_row :: "nat option"
  excel_row :: nat
  new_sheet :: "'f sheet"

text \<open>
  The body of the loop over the sorted items. \<open>group_start_row\<close> is set whenever
  \<open>current_product_key\<close> is, so the branch for \<open>None\<close> under a current key is never taken.
\<close>

definition write_item ::
  "'f builtins \<Rightarrow> 'f extract_state \<Rightarrow> 'f writer_state \<Rightarrow> 'f item \<Rightarrow> 'f writer_state" where
  "write_item B st ws it =
     (let pkey = product_key it;
          ws1 = (case current_product_key ws of
                   None \<Rightarrow> ws\<lparr>current_product_key := Some pkey,
                               group_start_row := Some (excel_row ws)\<rparr>
                 | Some cur \<Rightarrow>
                     if pkey \<noteq> cur then
                       (case group_start_row ws of
                          None \<Rightarrow> ws
                        | Some s \<Rightarrow>
                            ws\<lparr>new_sheet := finalize_group B st (new_sheet ws) cur s (excel_row ws - 1),
                               current_product_key := Some pkey,
                               group_start_row := Some (excel_row ws)\<rparr>)
                     else ws)
      in ws1\<lparr>new_sheet := sheet_append (new_sheet ws1)
                 [order_id it, product_name it, quantity_display it, PNone],
             excel_row := excel_row ws1 + 1\<rparr>)"

text \<open>\<open>[col.replace("_", " ").title() for col in DESIRED_COLUMNS]\<close>\<close>

definition header_titles :: "ustring list" where
  "header_titles = [u ''Order Id'', u ''Product Name'', u ''Quantity'', u ''Total Quantity'']"

text \<open>The sheet before the loop: the header row only; the first data row is row 2.\<close>

definition writer_init :: "'f sheet \<Rightarrow> 'f writer_state" where
  "writer_init sh =
     \<lparr>current_product_key = None, group_start_row = None, excel_row = 2, new_sheet = sh\<rparr>"

definition cleaned_header :: "unit \<Rightarrow> 'f sheet" where
  "cleaned_header _ = \<lparr>title = u ''Cleaned'', rows = [map PStr header_titles], merged_cells = []\<rparr>"

text \<open>The call of \<open>finalize_group\<close> after the loop, for the last group.\<close>

definition finalize_last :: "'f builtins \<Rightarrow> 'f extract_state \<Rightarrow> 'f writer_state \<Rightarrow> 'f sheet" where
  "finalize_last B st ws =
     (case (current_product_key ws, group_start_row ws) of
        (Some cur, Some s) \<Rightarrow> finalize_group B st (new_sheet ws) cur s (excel_row ws - 1)
      | _ \<Rightarrow> new_sheet ws)"

definition write_items ::
  "'f builtins \<Rightarrow> 'f extract_state \<Rightarrow> 'f item list \<Rightarrow> 'f sheet" where
  "write_items B st its =
     finalize_last B st (foldl (write_item B st) (writer_init (cleaned_header ())) its)"

section \<open>Summary\<close>

definition summary_rows_unsorted :: "'f extract_state \<Rightarrow> ('f pyval \<times> 'f) list" where
  "summary_rows_unsorted st =
     map (\<lambda>(k, total). (dict_get (product_display_names st) k (PStr k), total))
       (filter (\<lambda>(k, total). k \<noteq> [] \<and> dict_get (product_has_numeric st) k False)
          (product_totals st))"

text \<open>
  \<open>list.sort(key, reverse=True)\<close> is a stable ascending sort of the reversed list,
  reversed again.
\<close>

definition summary_rows :: "('f::linorder) extract_state \<Rightarrow> ('f pyval \<times> 'f) list" where
  "summary_rows st = rev (sort_key snd (rev (summary_rows_unsorted st)))"

definition best_selling :: "('f::linorder) extract_state \<Rightarrow> ('f pyval \<times> 'f) option" where
  "best_selling st = (case summary_rows st of [] \<Rightarrow> None | r # _ \<Rightarrow> Some r)"

text \<open>
  \<open>format_number(sum(product_totals.values()))\<close>: the sum of no values is the integer 0,
  which \<open>format_number\<close> returns as it is.
\<close>

definition total_quantity_display :: "'f builtins \<Rightarrow> 'f extract_state \<Rightarrow> 'f pyval" where
  "total_quantity_display B st =
     (if product_totals st = [] then PInt 0
      else format_number B (Some (py_sum B (map snd (product_totals st)))))"

definition summary_sheet :: "('f::linorder) builtins \<Rightarrow> 'f extract_state \<Rightarrow> 'f sheet" where
  "summary_sheet B st =
     \<lparr>title = u ''Summary'',
      rows =
        [[PStr (u ''Output Summary'')],
         [PStr (u ''Total quantity (numeric)''), total_quantity_display B st],
         [PStr (u ''Unique products''),
          PInt (int (length (filter (\<lambda>k. k \<noteq> []) (map fst (product_totals st)))))],
         [],
         [PStr (u ''Product name''), PStr (u ''Total quantity (numeric)'')]]
        @ map (\<lambda>(name, total). [name, format_number B (Some total)]) (summary_rows st)
        @ (case best_selling st of
             None \<Rightarrow> []
           | Some (best_name, best_total) \<Rightarrow>
               [[],
                [PStr (u ''Best-selling product''), best_name],
                [PStr (u ''Sales amount (numeric)''), format_number B (Some best_total)]]),
      merged_cells = []\<rparr>"

section \<open>The transform\<close>

record 'f workbook =
  cleaned :: "'f sheet"
  summary :: "'f sheet"

text \<open>
  \<open>clean_excel\<close> on a path that exists or not, whose active sheet has the given header
  row and data rows. The workbook returned is the one saved.
\<close>

definition clean_excel ::
  "('f::{zero,plus,linorder}) builtins \<Rightarrow> bool \<Rightarrow> 'f pyval list \<Rightarrow> 'f pyval list list \<Rightarrow>
     error + 'f workbook" where
  "clean_excel B file_exists header_cells data =
     (if \<not> file_exists then Inl FileNotFoundError
      else case resolve_headers header_cells of
             Inl e \<Rightarrow> Inl e
           | Inr hs \<Rightarrow>
               let st = extract_rows B hs data
               in Inr \<lparr>cleaned = write_items B st (sort_items B (extracted_rows st)),
                       summary = summary_sheet B st\<rparr>)"


section \<open>Notions the properties are stated with\<close>

text \<open>
  The indices of the header cells that resolve to the order-id role: those whose
  normalised key is \<open>order_id\<close>.
\<close>

definition order_id_indices :: "('f::zero) pyval list \<Rightarrow> nat list" where
  "order_id_indices hs =
     filter (\<lambda>i. normalize_header_any (or_empty (hs ! i)) = Inr (u ''order_id''))
       [0..<length hs]"

text \<open>
  A group index has something to extract from a row when its product-name cell or its
  quantity cell is not empty.
\<close>

definition cells_present :: "header_state \<Rightarrow> 'f pyval list \<Rightarrow> nat \<Rightarrow> bool" where
  "cells_present hs row n \<longleftrightarrow>
     \<not> (row_get row (map_of (product_name_cols hs) n) = PNone \<and>
        row_get row (map_of (quantity_cols hs) n) = PNone)"

text \<open>The record of a row for a group index, when it is the \<open>i\<close>-th record extracted.\<close>

definition group_item ::
  "'f builtins \<Rightarrow> header_state \<Rightarrow> 'f pyval list \<Rightarrow> nat \<Rightarrow> nat \<Rightarrow> 'f item" where
  "group_item B hs row n i =
     \<lparr>product_key = normalize_product_name B (row_get row (map_of (product_name_cols hs) n)),
      order_id = row_get row (order_col hs),
      product_name = row_get row (map_of (product_name_cols hs) n),
      quantity_display =
        (case parse_quantity B (row_get row (map_of (quantity_cols hs) n)) of
           Some q \<Rightarrow> format_number B (Some q)
         | None \<Rightarrow> row_get row (map_of (quantity_cols hs) n)),
      row_index = i\<rparr>"

text \<open>
  What the records of the data rows hold for the aggregator, in the order of extraction:
  the product key of each record and its quantity as a float, if it parses as one.
\<close>

definition observed_row ::
  "'f builtins \<Rightarrow> header_state \<Rightarrow> 'f pyval list \<Rightarrow> (ustring \<times> 'f option) list" where
  "observed_row B hs row =
     (if row_get row (order_col hs) = PNone then []
      else map (\<lambda>n. (normalize_product_name B (row_get row (map_of (product_name_cols hs) n)),
                     parse_quantity B (row_get row (map_of (quantity_cols hs) n))))
             (filter (cells_present hs row) (group_nums hs)))"

definition observed ::
  "'f builtins \<Rightarrow> header_state \<Rightarrow> 'f pyval list list \<Rightarrow> (ustring \<times> 'f option) list" where
  "observed B hs data = concat (map (observed_row B hs) data)"

text \<open>The numeric quantities of the records of a product key, in the order of extraction.\<close>

definition numeric_quantities :: "ustring \<Rightarrow> (ustring \<times> 'f option) list \<Rightarrow> 'f list" where
  "numeric_quantities k os = List.map_filter (\<lambda>(k', qv). if k' = k then qv else None) os"

text \<open>
  An instance of the builtins for running the model on examples whose order ids and
  product names are strings and whose quantities are whole numbers: the floats are the
  integers, \<open>float\<close> accepts numbers and booleans, and \<open>str\<close> is given on strings only.
\<close>

definition test_builtins :: "int builtins" where
  "test_builtins =
     \<lparr>py_float = (\<lambda>v. case v of
                        PInt i \<Rightarrow> Some i
                      | PFloat f \<Rightarrow> Some f
                      | PBool b \<Rightarrow> Some (if b then 1 else 0)
                      | _ \<Rightarrow> None),
      py_str = (\<lambda>v. case v of PStr s \<Rightarrow> s | _ \<Rightarrow> []),
      is_integer = (\<lambda>_. True),
      py_int = (\<lambda>f. f),
      py_sum = sum_list\<rparr>"

text \<open>
  The state of the aggregator after the records \<open>os\<close>: every key seen has a total, the
  sum of its numeric quantities taken in order from \<open>0.0\<close>; the keys with a numeric
  quantity are the ones flagged; and the records extracted carry the keys seen.
\<close>

definition agg_inv :: "('f::{zero,plus}) extract_state \<Rightarrow> (ustring \<times> 'f option) list \<Rightarrow> bool" where
  "agg_inv st os \<longleftrightarrow>
     (\<forall>k. map_of (product_totals st) k =
            (if k \<in> fst ` set os then Some (foldl (+) 0 (numeric_quantities k os)) else None)) \<and>
     (\<forall>k. map_of (product_has_numeric st) k =
            (if numeric_quantities k os = [] then None else Some True)) \<and>
     map product_key (extracted_rows st) = map fst os"

text \<open>
  The maximal runs of equal elements of a list, each with its length, and their place on
  the sheet when the first one starts at row \<open>r\<close>: key, first row, last row.
\<close>

fun runs :: "'a list \<Rightarrow> ('a \<times> nat) list" where
  "runs [] = []"
| "runs (x # xs) =
     (case runs xs of
        [] \<Rightarrow> [(x, 1)]
      | (y, n) # rs \<Rightarrow> if x = y then (x, Suc n) # rs else (x, 1) # (y, n) # rs)"

fun place :: "nat \<Rightarrow> ('a \<times> nat) list \<Rightarrow> ('a \<times> nat \<times> nat) list" where
  "place r [] = []"
| "place r ((k, n) # rs) = (k, r, r + n - 1) # place (r + n) rs"

text \<open>The fourth column of a sheet, from its first row down.\<close>

definition total_column :: "'f sheet \<Rightarrow> 'f pyval list" where
  "total_column sh = map (\<lambda>r. r ! 3) (rows sh)"

section \<open>Headers under the Unicode database\<close>

text \<open>
  The definitions of the header functions above take the case mapping and the digits of
  ASCII. The ones of this section follow CPython on every string: they take the Unicode
  database, which is not part of the source, as a parameter. \<open>to_lower_full\<close> is the
  full lower-case mapping of a code point, \<open>is_cased\<close> and \<open>is_case_ignorable\<close> are the
  two properties that decide the form of a lower-case sigma, and \<open>decimal_value\<close> is the
  value of a decimal digit (category Nd), \<open>None\<close> for every other code point.
\<close>

record unicode =
  to_lower_full :: "nat \<Rightarrow> nat list"
  is_cased :: "nat \<Rightarrow> bool"
  is_case_ignorable :: "nat \<Rightarrow> bool"
  decimal_value :: "nat \<Rightarrow> nat option"

text \<open>
  \<open>str.lower()\<close>. Every code point is replaced by its full lower-case mapping, but for
  the capital sigma U+03A3 (931), which becomes the final sigma U+03C2 (962) when a cased
  letter comes before it and none after it, case-ignorable code points skipped on both
  sides, and the small sigma U+03C3 (963) otherwise.
\<close>

definition final_sigma :: "unicode \<Rightarrow> ustring \<Rightarrow> nat \<Rightarrow> bool" where
  "final_sigma U s i =
     ((case dropWhile (is_case_ignorable U) (rev (take i s)) of
         [] \<Rightarrow> False
       | c # _ \<Rightarrow> is_cased U c) \<and>
      (case dropWhile (is_case_ignorable U) (drop (Suc i) s) of
         [] \<Rightarrow> True
       | c # _ \<Rightarrow> \<not> is_cased U c))"

definition lower_at :: "unicode \<Rightarrow> ustring \<Rightarrow> nat \<Rightarrow> ustring" where
  "lower_at U s i =
     (if s ! i = 931 then [if final_sigma U s i then 962 else 963]
      else to_lower_full U (s ! i))"

definition py_lower :: "unicode \<Rightarrow> ustring \<Rightarrow> ustring" where
  "py_lower U s = concat (map (lower_at U s) [0..<length s])"

definition header_key_py :: "unicode \<Rightarrow> ustring \<Rightarrow> ustring" where
  "header_key_py U name = filter (\<lambda>c. \<not> is_sep c) (py_lower U (strip name))"

definition normalize_header_py :: "unicode \<Rightarrow> ustring \<Rightarrow> ustring" where
  "normalize_header_py U name =
     (let key = header_key_py U name in dict_get HEADER_ALIASES key key)"

definition normalize_header_any_py :: "unicode \<Rightarrow> ('f::zero) pyval \<Rightarrow> error + ustring" where
  "normalize_header_any_py U name =
     (case or_empty name of
        PStr s \<Rightarrow> Inr (normalize_header_py U s)
      | _ \<Rightarrow> Inl AttributeError)"

text \<open>
  \<open>\\d\<close> matches the decimal digits of Unicode, and \<open>int\<close> reads them by their values.
  \<open>int\<close> raises \<open>ValueError\<close> on more digits than \<open>sys.int_info.default_max_str_digits\<close>,
  which is 4300.
\<close>

definition is_decimal :: "unicode \<Rightarrow> nat \<Rightarrow> bool" where
  "is_decimal U c \<longleftrightarrow> decimal_value U c \<noteq> None"

definition int_of_decimals :: "unicode \<Rightarrow> ustring \<Rightarrow> nat" where
  "int_of_decimals U ds =
     foldl (\<lambda>acc c. 10 * acc + (case decimal_value U c of Some v \<Rightarrow> v | None \<Rightarrow> 0)) 0 ds"

definition int_max_str_digits :: nat where
  "int_max_str_digits = 4300"

definition py_int_digits :: "unicode \<Rightarrow> ustring \<Rightarrow> error + nat" where
  "py_int_digits U ds =
     (if int_max_str_digits < length ds then Inl IntDigitsLimitError
      else Inr (int_of_decimals U ds))"

definition match_prefix_digits_py :: "unicode \<Rightarrow> ustring \<Rightarrow> ustring \<Rightarrow> ustring option" where
  "match_prefix_digits_py U p key =
     (if take (length p) key = p
      then Some (takeWhile (is_decimal U) (drop (length p) key))
      else None)"

definition name_match_py :: "unicode \<Rightarrow> ustring \<Rightarrow> ustring option" where
  "name_match_py U key = match_prefix_digits_py U (u ''productname'') key"

definition qty_match_py :: "unicode \<Rightarrow> ustring \<Rightarrow> ustring option" where
  "qty_match_py U key =
     (case match_prefix_digits_py U (u ''productquantity'') key of
        Some ds \<Rightarrow> Some ds
      | None \<Rightarrow> match_prefix_digits_py U (u ''quantity'') key)"

text \<open>\<open>int(group or "1")\<close>\<close>

definition group_num_py :: "unicode \<Rightarrow> ustring \<Rightarrow> error + nat" where
  "group_num_py U ds = (if ds = [] then Inr 1 else py_int_digits U ds)"

definition header_step_py :: "unicode \<Rightarrow> header_state \<Rightarrow> nat \<Rightarrow> ustring \<Rightarrow> error + header_state" where
  "header_step_py U st idx key =
     (if key = u ''order_id'' then Inr (st\<lparr>order_col := Some idx\<rparr>)
      else
        case (case name_match_py U key of
                Some ds \<Rightarrow>
                  (case group_num_py U ds of
                     Inl e \<Rightarrow> Inl e
                   | Inr num \<Rightarrow>
                       Inr (st\<lparr>product_name_cols :=
                                 AList.update num idx (product_name_cols st)\<rparr>))
              | None \<Rightarrow> Inr st) of
          Inl e \<Rightarrow> Inl e
        | Inr st1 \<Rightarrow>
            (case qty_match_py U key of
               Some ds \<Rightarrow>
                 (case group_num_py U ds of
                    Inl e \<Rightarrow> Inl e
                  | Inr num \<Rightarrow>
                      Inr (st1\<lparr>quantity_cols :=
                                 AList.update num idx (quantity_cols st1)\<rparr>))
             | None \<Rightarrow> Inr st1))"

fun header_loop_py ::
  "unicode \<Rightarrow> header_state \<Rightarrow> nat \<Rightarrow> ('f::zero) pyval list \<Rightarrow> error + header_state" where
  "header_loop_py U st idx [] = Inr st"
| "header_loop_py U st idx (c # cs) =
     (case normalize_header_any_py U (or_empty c) of
        Inl e \<Rightarrow> Inl e
      | Inr key \<Rightarrow>
          (case header_step_py U st idx key of
             Inl e \<Rightarrow> Inl e
           | Inr st1 \<Rightarrow> header_loop_py U st1 (Suc idx) cs))"

definition resolve_headers_py :: "unicode \<Rightarrow> ('f::zero) pyval list \<Rightarrow> error + header_state" where
  "resolve_headers_py U header_cells =
     (case header_loop_py U header_init 0 header_cells of
        Inl e \<Rightarrow> Inl e
      | Inr st \<Rightarrow>
          if order_col st = None then Inl MissingOrderIdColumn
          else if product_name_cols st = [] \<and> quantity_cols st = [] then Inl NoProductColumnsFound
          else Inr st)"

text \<open>
  Two facts of the Unicode database that the properties of normalisation rest on: the
  code points of a lower-case mapping are lower case themselves (each is its own mapping,
  and none is the capital sigma), and on ASCII the mapping is the one of the letters A
  to Z.
\<close>

definition lower_settles :: "unicode \<Rightarrow> bool" where
  "lower_settles U \<longleftrightarrow>
     (\<forall>c. c \<noteq> 931 \<longrightarrow> (\<forall>d\<in>set (to_lower_full U c). d \<noteq> 931 \<and> to_lower_full U d = [d])) \<and>
     to_lower_full U 962 = [962] \<and> to_lower_full U 963 = [963]"

definition lower_ascii :: "unicode \<Rightarrow> bool" where
  "lower_ascii U \<longleftrightarrow> (\<forall>c<128. to_lower_full U c = [lower_cp c])"


text \<open>The part of the Unicode database that lies in ASCII, for running examples.\<close>

definition ascii_unicode :: unicode where
  "ascii_unicode =
     \<lparr>to_lower_full = (\<lambda>c. [lower_cp c]),
      is_cased = (\<lambda>c. (65 \<le> c \<and> c \<le> 90) \<or> (97 \<le> c \<and> c \<le> 122)),
      is_case_ignorable = (\<lambda>c. c = 39 \<or> c = 46 \<or> c = 58 \<or> c = 94 \<or> c = 96),
      decimal_value = (\<lambda>c. if 48 \<le> c \<and> c \<le> 57 then Some (c - 48) else None)\<rparr>"






section \<open>Extraction and summary under the floats of Python\<close>

text \<open>
  The extraction above takes \<open>float\<close> as a function that returns a float or fails with
  one of the two exceptions that \<open>parse_quantity\<close> catches, and the summary above takes
  the floats as linearly ordered. The definitions of this section follow CPython on every
  cell value. \<open>float\<close> of an integer beyond the range of a double raises
  \<open>OverflowError\<close>, which \<open>parse_quantity\<close> does not catch: \<open>float_overflows\<close> says of
  which values. \<open>float_lt\<close> is \<open><\<close> on floats, which is false whenever one of the two
  is NaN. \<open>sort_inconsistent\<close> is what \<open>list.sort(key=lambda x: x[1], reverse=True)\<close>
  leaves of a list, already reversed, that is not one ascending run and whose keys \<open><\<close>
  does not order consistently: the result depends on the merge strategy of the
  interpreter, which is not part of the source.
\<close>

record 'f floats =
  float_overflows :: "'f pyval \<Rightarrow> bool"
  float_lt :: "'f \<Rightarrow> 'f \<Rightarrow> bool"
  sort_inconsistent :: "('f pyval \<times> 'f) list \<Rightarrow> ('f pyval \<times> 'f) list"

definition parse_quantity_py :: "'f floats \<Rightarrow> 'f builtins \<Rightarrow> 'f pyval \<Rightarrow> error + 'f option" where
  "parse_quantity_py F B v =
     (case v of
        PNone \<Rightarrow> Inr None
      | _ \<Rightarrow> if float_overflows F v then Inl OverflowError else Inr (py_float B v))"

text \<open>The body of the loop over group indices, for one row and one index.\<close>

definition extract_group_py ::
  "'f floats \<Rightarrow> ('f::{zero,plus}) builtins \<Rightarrow> header_state \<Rightarrow> 'f pyval list \<Rightarrow> 'f pyval \<Rightarrow>
     'f extract_state \<Rightarrow> nat \<Rightarrow> error + 'f extract_state" where
  "extract_group_py F B hs row oid st num =
     (let name_idx = map_of (product_name_cols hs) num;
          qty_idx = map_of (quantity_cols hs) num;
          pname = row_get row name_idx;
          qty_raw = row_get row qty_idx
      in case parse_quantity_py F B qty_raw of
           Inl e \<Rightarrow> Inl e
         | Inr qty_value \<Rightarrow>
             if pname = PNone \<and> qty_raw = PNone then Inr st
             else
               let pkey = normalize_product_name B pname;
                   names = (if pkey \<noteq> [] \<and> map_of (product_display_names st) pkey = None
                            then AList.update pkey pname (product_display_names st)
                            else product_display_names st);
                   totals = (case qty_value of
                               Some q \<Rightarrow>
                                 AList.update pkey (dict_get (product_totals st) pkey 0 + q)
                                   (product_totals st)
                             | None \<Rightarrow> dict_setdefault (product_totals st) pkey 0);
                   has = (case qty_value of
                            Some q \<Rightarrow> AList.update pkey True (product_has_numeric st)
                          | None \<Rightarrow> product_has_numeric st)
               in Inr \<lparr>extracted_rows = extracted_rows st @
                         [\<lparr>product_key = pkey, order_id = oid, product_name = pname,
                           quantity_display = (case qty_value of
                                                 Some q \<Rightarrow> format_number B (Some q)
                                               | None \<Rightarrow> qty_raw),
                           row_index = length (extracted_rows st)\<rparr>],
                       product_totals = totals,
                       product_has_numeric = has,
                       product_display_names = names\<rparr>)"

text \<open>A loop whose body may raise: the first error ends it.\<close>

fun for_each :: "('s \<Rightarrow> 'a \<Rightarrow> error + 's) \<Rightarrow> 's \<Rightarrow> 'a list \<Rightarrow> error + 's" where
  "for_each body st [] = Inr st"
| "for_each body st (x # xs) =
     (case body st x of
        Inl e \<Rightarrow> Inl e
      | Inr st1 \<Rightarrow> for_each body st1 xs)"

definition extract_row_py ::
  "'f floats \<Rightarrow> ('f::{zero,plus}) builtins \<Rightarrow> header_state \<Rightarrow> 'f extract_state \<Rightarrow>
     'f pyval list \<Rightarrow> error + 'f extract_state" where
  "extract_row_py F B hs st row =
     (let oid = row_get row (order_col hs)
      in if oid = PNone then Inr st
         else for_each (extract_group_py F B hs row oid) st (group_nums hs))"

definition extract_rows_py ::
  "'f floats \<Rightarrow> ('f::{zero,plus}) builtins \<Rightarrow> header_state \<Rightarrow> 'f pyval list list \<Rightarrow>
     error + 'f extract_state" where
  "extract_rows_py F B hs data =
     for_each (extract_row_py F B hs)
       \<lparr>extracted_rows = [], product_totals = [], product_has_numeric = [],
        product_display_names = []\<rparr> data"

text \<open>
  \<open>list.sort\<close> compares with \<open><\<close> only and is stable. A list in which no element is
  less than the one before it is one ascending run, and stays as it is. Otherwise, when
  \<open><\<close> orders the keys consistently (it is irreflexive and transitive, and so is "not
  less than"), the result is the one list that is sorted and keeps the elements that
  \<open><\<close> does not tell apart in their order, which a stable insertion sort computes.
\<close>

fun insort_lt :: "('k \<Rightarrow> 'k \<Rightarrow> bool) \<Rightarrow> ('a \<Rightarrow> 'k) \<Rightarrow> 'a \<Rightarrow> 'a list \<Rightarrow> 'a list" where
  "insort_lt lt key x [] = [x]"
| "insort_lt lt key x (y # ys) =
     (if lt (key y) (key x) then y # insort_lt lt key x ys else x # y # ys)"

definition sort_lt :: "('k \<Rightarrow> 'k \<Rightarrow> bool) \<Rightarrow> ('a \<Rightarrow> 'k) \<Rightarrow> 'a list \<Rightarrow> 'a list" where
  "sort_lt lt key xs = foldr (insort_lt lt key) xs []"

definition consistent_order :: "('k \<Rightarrow> 'k \<Rightarrow> bool) \<Rightarrow> 'k list \<Rightarrow> bool" where
  "consistent_order lt ks \<longleftrightarrow>
     (\<forall>a\<in>set ks. \<not> lt a a) \<and>
     (\<forall>a\<in>set ks. \<forall>b\<in>set ks. \<forall>c\<in>set ks. lt a b \<and> lt b c \<longrightarrow> lt a c) \<and>
     (\<forall>a\<in>set ks. \<forall>b\<in>set ks. \<forall>c\<in>set ks. \<not> lt a b \<and> \<not> lt b c \<longrightarrow> \<not> lt a c)"

definition ascending_run :: "('k \<Rightarrow> 'k \<Rightarrow> bool) \<Rightarrow> 'k list \<Rightarrow> bool" where
  "ascending_run lt ks \<longleftrightarrow> successively (\<lambda>a b. \<not> lt b a) ks"

definition list_sort :: "'f floats \<Rightarrow> ('f pyval \<times> 'f) list \<Rightarrow> ('f pyval \<times> 'f) list" where
  "list_sort F xs =
     (if ascending_run (float_lt F) (map snd xs) then xs
      else if consistent_order (float_lt F) (map snd xs) then sort_lt (float_lt F) snd xs
      else sort_inconsistent F xs)"

text \<open>With \<open>reverse=True\<close> the list is reversed, sorted, and reversed again.\<close>

definition summary_rows_py :: "'f floats \<Rightarrow> 'f extract_state \<Rightarrow> ('f pyval \<times> 'f) list" where
  "summary_rows_py F st = rev (list_sort F (rev (summary_rows_unsorted st)))"

definition best_selling_py :: "'f floats \<Rightarrow> 'f extract_state \<Rightarrow> ('f pyval \<times> 'f) option" where
  "best_selling_py F st = (case summary_rows_py F st of [] \<Rightarrow> None | r # _ \<Rightarrow> Some r)"

definition summary_sheet_py :: "'f floats \<Rightarrow> 'f builtins \<Rightarrow> 'f extract_state \<Rightarrow> 'f sheet" where
  "summary_sheet_py F B st =
     \<lparr>title = u ''Summary'',
      rows =
        [[PStr (u ''Output Summary'')],
         [PStr (u ''Total quantity (numeric)''), total_quantity_display B st],
         [PStr (u ''Unique products''),
          PInt (int (length (filter (\<lambda>k. k \<noteq> []) (map fst (product_totals st)))))],
         [],
         [PStr (u ''Product name''), PStr (u ''Total quantity (numeric)'')]]
        @ map (\<lambda>(name, total). [name, format_number B (Some total)]) (summary_rows_py F st)
        @ (case best_selling_py F st of
             None \<Rightarrow> []
           | Some (best_name, best_total) \<Rightarrow>
               [[],
                [PStr (u ''Best-selling product''), best_name],
                [PStr (u ''Sales amount (numeric)''), format_number B (Some best_total)]]),
      merged_cells = []\<rparr>"

text \<open>
  \<open>clean_excel\<close> with the headers resolved under the Unicode database and the rows
  extracted and ranked under the floats of Python.
\<close>

definition clean_excel_py ::
  "unicode \<Rightarrow> 'f floats \<Rightarrow> ('f::{zero,plus}) builtins \<Rightarrow> bool \<Rightarrow> 'f pyval list \<Rightarrow>
     'f pyval list list \<Rightarrow> error + 'f workbook" where
  "clean_excel_py U F B file_exists header_cells data =
     (if \<not> file_exists then Inl FileNotFoundError
      else case resolve_headers_py U header_cells of
             Inl e \<Rightarrow> Inl e
           | Inr hs \<Rightarrow>
               (case extract_rows_py F B hs data of
                  Inl e \<Rightarrow> Inl e
                | Inr st \<Rightarrow>
                    Inr \<lparr>cleaned = write_items B st (sort_items B (extracted_rows st)),
                         summary = summary_sheet_py F B st\<rparr>))"

text \<open>
  A row makes \<open>float\<close> overflow when it has an order id and the quantity cell of one of
  the group indices holds a value on which \<open>float\<close> raises \<open>OverflowError\<close>.
\<close>

definition quantity_overflows :: "'f floats \<Rightarrow> header_state \<Rightarrow> 'f pyval list \<Rightarrow> bool" where
  "quantity_overflows F hs row \<longleftrightarrow>
     row_get row (order_col hs) \<noteq> PNone \<and>
     (\<exists>n\<in>set (group_nums hs).
        row_get row (map_of (quantity_cols hs) n) \<noteq> PNone \<and>
        float_overflows F (row_get row (map_of (quantity_cols hs) n)))"

text \<open>
  The group indices that a row gives a record for: none when the order-id cell of the row
  is empty or absent, and otherwise the group indices, in ascending order, whose
  product-name cell or quantity cell is not empty. The records of the data rows are the
  records of these groups, row after row, numbered from 0.
\<close>

definition record_groups :: "header_state \<Rightarrow> 'f pyval list \<Rightarrow> nat list" where
  "record_groups hs row =
     (if row_get row (order_col hs) = PNone then []
      else filter (cells_present hs row) (group_nums hs))"

definition row_records ::
  "'f builtins \<Rightarrow> header_state \<Rightarrow> 'f pyval list list \<Rightarrow> 'f item list" where
  "row_records B hs data =
     (let gs = concat (map (\<lambda>row. map (Pair row) (record_groups hs row)) data)
      in map (\<lambda>((row, n), i). group_item B hs row n i) (zip gs [0..<length gs]))"

text \<open>Two totals are tied when neither is less than the other.\<close>

definition tied :: "'f floats \<Rightarrow> 'f \<Rightarrow> 'f \<Rightarrow> bool" where
  "tied F s t \<longleftrightarrow> \<not> float_lt F s t \<and> \<not> float_lt F t s"

text \<open>
  Floats for running examples with NaN: the whole numbers and NaN, which every sum with
  it yields and which is less than nothing and greater than nothing.
\<close>

datatype tfloat = NaN | Fin int

instantiation tfloat :: "{zero,plus}"
begin

definition zero_tfloat :: tfloat where
  "zero_tfloat = Fin 0"

fun plus_tfloat :: "tfloat \<Rightarrow> tfloat \<Rightarrow> tfloat" where
  "plus_tfloat (Fin a) (Fin b) = Fin (a + b)"
| "plus_tfloat _ _ = NaN"

instance ..

end

text \<open>
  The builtins on these: \<open>float\<close> accepts integers, floats, booleans and the text
  \<open>nan\<close>; \<open>str\<close> is given on strings only.
\<close>

definition nan_builtins :: "tfloat builtins" where
  "nan_builtins =
     \<lparr>py_float = (\<lambda>v. case v of
                        PInt i \<Rightarrow> Some (Fin i)
                      | PFloat f \<Rightarrow> Some f
                      | PBool b \<Rightarrow> Some (Fin (if b then 1 else 0))
                      | PStr s \<Rightarrow> if s = u ''nan'' then Some NaN else None
                      | _ \<Rightarrow> None),
      py_str = (\<lambda>v. case v of PStr s \<Rightarrow> s | _ \<Rightarrow> []),
      is_integer = (\<lambda>f. f \<noteq> NaN),
      py_int = (\<lambda>f. case f of Fin i \<Rightarrow> i | NaN \<Rightarrow> 0),
      py_sum = foldl (+) 0\<rparr>"

text \<open>
  \<open>float\<close> overflows on the integers that round to \<open>2 ^ 1024\<close> or beyond, in absolute
  value. The examples do not reach \<open>sort_inconsistent\<close>.
\<close>

definition nan_floats :: "tfloat floats" where
  "nan_floats =
     \<lparr>float_overflows = (\<lambda>v. case v of PInt i \<Rightarrow> 2 ^ 1024 - 2 ^ 970 \<le> \<bar>i\<bar> | _ \<Rightarrow> False),
      float_lt = (\<lambda>a b. case (a, b) of (Fin x, Fin y) \<Rightarrow> x < y | _ \<Rightarrow> False),
      sort_inconsistent = (\<lambda>xs. xs)\<rparr>"

section \<open>Properties of header normalisation\<close>


lemma u_simps: "u [] = []" "u (c # cs) = of_char c # u cs"
  by (simp_all add: u_def)

lemmas header_defs = normalize_header_def header_key_def strip_def lower_def lower_cp_def
  is_sep_def is_space_def dict_get_def HEADER_ALIASES_def

lemma header_key_no_sep: "\<forall>c\<in>set (header_key x). \<not> is_sep c"
  by (simp add: header_key_def)

lemma lower_cp_idem: "lower_cp (lower_cp c) = lower_cp c"
  by (simp add: lower_cp_def)

lemma strip_no_space:
  assumes h: "\<forall>c\<in>set s. \<not> is_space c"
  shows "strip s = s"
proof (cases s)
  case Nil then show ?thesis by (simp add: strip_def)
next
  case (Cons a t)
  then have 1: "dropWhile is_space s = s" using h by simp
  have "rev s \<noteq> []" using Cons by simp
  then obtain b r where r: "rev s = b # r" by (cases "rev s") auto
  then have "b \<in> set s" by (metis list.set_intros(1) set_rev)
  then have "\<not> is_space b" using h by blast
  then have "dropWhile is_space (rev s) = rev s" using r by simp
  then show ?thesis by (simp add: strip_def 1)
qed

lemma header_key_idem: "header_key (header_key x) = header_key x"
proof -
  let ?k = "header_key x"
  have ns: "\<forall>c\<in>set ?k. \<not> is_sep c" by (rule header_key_no_sep)
  then have "\<forall>c\<in>set ?k. \<not> is_space c" by (simp add: is_sep_def)
  then have s: "strip ?k = ?k" by (rule strip_no_space)
  have l: "lower ?k = ?k"
    unfolding header_key_def lower_def
    by (simp add: filter_map o_def lower_cp_idem map_idI)
  have "filter (\<lambda>c. \<not> is_sep c) ?k = ?k" using ns by simp
  then show ?thesis
    by (subst header_key_def) (simp add: s l)
qed

lemma alias_range:
  "map_of HEADER_ALIASES k = Some v \<Longrightarrow>
     v = u ''order_id'' \<or> v = u ''quantity'' \<or> v = u ''total_quantity''"
  by (auto simp: HEADER_ALIASES_def split: if_splits)

lemma normalize_order_id: "normalize_header (u ''order_id'') = u ''order_id''"
  by (simp add: header_defs u_simps)

lemma normalize_quantity: "normalize_header (u ''quantity'') = u ''quantity''"
  by (simp add: header_defs u_simps)

lemma normalize_total_quantity: "normalize_header (u ''total_quantity'') = u ''total_quantity''"
  by (simp add: header_defs u_simps)

lemma alias_values: "map_of HEADER_ALIASES k = Some v \<Longrightarrow> normalize_header v = v"
  using alias_range[of k v] normalize_order_id normalize_quantity normalize_total_quantity
  by auto

lemmas match_defs = name_match_def qty_match_def match_prefix_digits_def group_num_def
  int_of_digits_def is_digit_def

text \<open>
  Claim C8. The header "Total_Qty" normalises to \<open>totalqty\<close>, not to the
  \<open>total_quantity\<close> label: separators are deleted before the alias table is read, so
  its entry for \<open>total_qty\<close> is never reached. The header gets neither a product-name
  nor a quantity role and leaves the header state as it is, and "Product Name 2" matches
  the product-name pattern with group index 2.
\<close>

theorem total_qty_not_aliased:
  "normalize_header (u ''Total_Qty'') = u ''totalqty'' \<and>
   normalize_header (u ''Total_Qty'') \<noteq> u ''total_quantity'' \<and>
   map_of HEADER_ALIASES (u ''total_qty'') = Some (u ''total_quantity'') \<and>
   name_match (normalize_header (u ''Total_Qty'')) = None \<and>
   qty_match (normalize_header (u ''Total_Qty'')) = None \<and>
   header_step st idx (normalize_header (u ''Total_Qty'')) = st \<and>
   name_match (normalize_header (u ''Product Name 2'')) = Some (u ''2'') \<and>
   group_num (u ''2'') = 2"
proof -
  have k: "normalize_header (u ''Total_Qty'') = u ''totalqty''"
    by (simp add: header_defs u_simps)
  have p: "normalize_header (u ''Product Name 2'') = u ''productname2''"
    by (simp add: header_defs u_simps)
  have 1: "u ''totalqty'' \<noteq> u ''total_quantity''" by (simp add: u_simps)
  have 2: "map_of HEADER_ALIASES (u ''total_qty'') = Some (u ''total_quantity'')"
    by (simp add: HEADER_ALIASES_def u_simps)
  have 3: "name_match (u ''totalqty'') = None" by (simp add: match_defs u_simps)
  have 4: "qty_match (u ''totalqty'') = None" by (simp add: match_defs u_simps)
  have 5: "header_step st idx (u ''totalqty'') = st"
    unfolding header_step_def by (simp add: 3 4) (simp add: u_simps)
  have 6: "name_match (u ''productname2'') = Some (u ''2'')" by (simp add: match_defs u_simps)
  have 7: "group_num (u ''2'') = 2" by (simp add: match_defs u_simps)
  show ?thesis unfolding k p using 1 2 3 4 5 6 7 by simp
qed



section \<open>Properties of header resolution\<close>


lemma name_match_prefix: "name_match (u ''productname'' @ t) = Some (takeWhile is_digit t)"
  by (simp add: name_match_def match_prefix_digits_def)

lemma qty_match_quantity: "qty_match (u ''quantity'' @ t) = Some (takeWhile is_digit t)"
  by (simp add: qty_match_def match_prefix_digits_def u_simps)

lemma qty_match_productquantity:
  "qty_match (u ''productquantity'' @ t) = Some (takeWhile is_digit t)"
  by (simp add: qty_match_def match_prefix_digits_def)

lemma name_match_not_qty: "name_match (u ''quantity'' @ t) = None"
  "name_match (u ''productquantity'' @ t) = None"
  by (simp_all add: name_match_def match_prefix_digits_def u_simps)

lemma qty_match_not_name: "qty_match (u ''productname'' @ t) = None"
  by (simp add: qty_match_def match_prefix_digits_def u_simps)


lemma or_empty_idem: "or_empty (or_empty v) = or_empty v"
  by (cases v) (simp_all add: or_empty_def)







lemma norm_id: "normalize_header (u ''id'') = u ''order_id''"
  by (simp add: header_defs u_simps)
lemma norm_order_id_sp: "normalize_header (u ''Order ID'') = u ''order_id''"
  by (simp add: header_defs u_simps)
lemma norm_product_name: "normalize_header (u ''Product Name'') = u ''productname''"
  by (simp add: header_defs u_simps)

lemma nha_str: "s \<noteq> [] \<Longrightarrow> normalize_header_any (or_empty (PStr s)) = Inr (normalize_header s)"
  by (simp add: normalize_header_any_def or_empty_def)









text \<open>
  Claim C5. A header row whose first cell holds the number 2024 aborts the transform
  with \<open>AttributeError\<close>, although the file exists, the header "id" resolves to the
  order-id role and "Product Name" matches the product-name pattern: none of the three
  fatal conditions holds.
\<close>

theorem numeric_header_cell_aborts:
  "clean_excel B True [PInt 2024, PStr (u ''id''), PStr (u ''Product Name'')] data =
     Inl AttributeError \<and>
   order_id_indices [PInt 2024, PStr (u ''id''), PStr (u ''Product Name'') :: int pyval] = [1] \<and>
   name_match (normalize_header (u ''Product Name'')) = Some []"
proof -
  have s: "u ''id'' \<noteq> []" "u ''Product Name'' \<noteq> []" by (simp_all add: u_simps)
  have p: "u ''productname'' \<noteq> u ''order_id''" by (simp add: u_simps)
  have 1: "clean_excel B True [PInt 2024, PStr (u ''id''), PStr (u ''Product Name'')] data =
     Inl AttributeError"
    by (simp add: clean_excel_def resolve_headers_def normalize_header_any_def or_empty_def)
  have n: "normalize_header_any (or_empty (PInt 2024 :: int pyval)) = Inl AttributeError"
    by (simp add: normalize_header_any_def or_empty_def)
  have 2: "order_id_indices [PInt 2024, PStr (u ''id''), PStr (u ''Product Name'') :: int pyval] = [1]"
    by (simp add: order_id_indices_def upt_rec n nha_str s norm_id norm_product_name p)
  have 3: "name_match (normalize_header (u ''Product Name'')) = Some []"
    unfolding norm_product_name by (simp add: match_defs u_simps)
  show ?thesis using 1 2 3 by simp
qed


section \<open>Properties of extraction and aggregation\<close>









lemma norm_widget: "normalize_product_name test_builtins (PStr (u ''Widget'')) = u ''widget''"
  by (simp add: normalize_product_name_def test_builtins_def u_simps strip_def lower_def
      lower_cp_def is_space_def)

lemma test_float: "py_float test_builtins (PInt i) = Some i"
  "py_float test_builtins (PStr s) = None"
  by (simp_all add: test_builtins_def)

lemma test_format: "format_number test_builtins (Some q) = PInt q"
  by (simp add: format_number_def test_builtins_def)




lemma numeric_quantities_append:
  "numeric_quantities k (os @ ps) = numeric_quantities k os @ numeric_quantities k ps"
  by (simp add: numeric_quantities_def map_filter_def)

lemma numeric_quantities_single:
  "numeric_quantities k [(k', qv)] =
     (case qv of None \<Rightarrow> [] | Some q \<Rightarrow> if k' = k then [q] else [])"
  by (simp add: numeric_quantities_def map_filter_simps split: option.splits)

lemma numeric_quantities_unseen: "k \<notin> fst ` set os \<Longrightarrow> numeric_quantities k os = []"
  by (induction os) (auto simp: numeric_quantities_def map_filter_simps split: option.splits)

lemma agg_inv_step:
  assumes inv: "agg_inv st os"
  shows "agg_inv (extract_group B hs row oid st n)
           (os @ (if cells_present hs row n
                  then [(normalize_product_name B (row_get row (map_of (product_name_cols hs) n)),
                         parse_quantity B (row_get row (map_of (quantity_cols hs) n)))]
                  else []))"
proof (cases "cells_present hs row n")
  case False
  then show ?thesis using inv by (simp add: extract_group_def cells_present_def Let_def)
next
  case True
  let ?pk = "normalize_product_name B (row_get row (map_of (product_name_cols hs) n))"
  let ?qv = "parse_quantity B (row_get row (map_of (quantity_cols hs) n))"
  let ?st = "extract_group B hs row oid st n"
  from inv have
    t: "\<And>k. map_of (product_totals st) k =
            (if k \<in> fst ` set os then Some (foldl (+) 0 (numeric_quantities k os)) else None)" and
    h: "\<And>k. map_of (product_has_numeric st) k =
            (if numeric_quantities k os = [] then None else Some True)" and
    r: "map product_key (extracted_rows st) = map fst os"
    by (simp_all add: agg_inv_def)
  have np: "\<not> (row_get row (map_of (product_name_cols hs) n) = PNone \<and>
               row_get row (map_of (quantity_cols hs) n) = PNone)"
    using True by (simp add: cells_present_def)
  have rows: "map product_key (extracted_rows ?st) = map fst (os @ [(?pk, ?qv)])"
    using np r by (auto simp: extract_group_def Let_def)
  have tot: "product_totals ?st =
     (case ?qv of
        Some q \<Rightarrow> AList.update ?pk (dict_get (product_totals st) ?pk 0 + q) (product_totals st)
      | None \<Rightarrow> dict_setdefault (product_totals st) ?pk 0)"
    using np by (auto simp: extract_group_def Let_def)
  have has: "product_has_numeric ?st =
     (case ?qv of
        Some q \<Rightarrow> AList.update ?pk True (product_has_numeric st)
      | None \<Rightarrow> product_has_numeric st)"
    using np by (auto simp: extract_group_def Let_def)
  have dg: "dict_get (product_totals st) ?pk 0 = foldl (+) 0 (numeric_quantities ?pk os)"
    by (simp add: dict_get_def t numeric_quantities_unseen)
  have T: "map_of (product_totals ?st) k =
            (if k \<in> fst ` set (os @ [(?pk, ?qv)])
             then Some (foldl (+) 0 (numeric_quantities k (os @ [(?pk, ?qv)]))) else None)" for k
  proof (cases ?qv)
    case None
    then show ?thesis
      by (auto simp: tot dict_setdefault_def update_conv' t numeric_quantities_append
          numeric_quantities_single numeric_quantities_unseen)
  next
    case (Some q)
    then show ?thesis
      by (auto simp: tot update_conv' t dg numeric_quantities_append numeric_quantities_single)
  qed
  have H: "map_of (product_has_numeric ?st) k =
            (if numeric_quantities k (os @ [(?pk, ?qv)]) = [] then None else Some True)" for k
    by (cases ?qv)
       (auto simp: has update_conv' h numeric_quantities_append numeric_quantities_single)
  show ?thesis
    using True T H rows unfolding agg_inv_def by simp
qed

lemma agg_inv_groups:
  "agg_inv st os \<Longrightarrow>
   agg_inv (foldl (extract_group B hs row oid) st ns)
     (os @ map (\<lambda>n. (normalize_product_name B (row_get row (map_of (product_name_cols hs) n)),
                     parse_quantity B (row_get row (map_of (quantity_cols hs) n))))
             (filter (cells_present hs row) ns))"
proof (induction ns arbitrary: st os)
  case Nil
  then show ?case by simp
next
  case (Cons n ns)
  from agg_inv_step[OF Cons.prems, of B hs row oid n]
  have "agg_inv (extract_group B hs row oid st n)
           (os @ (if cells_present hs row n
                  then [(normalize_product_name B (row_get row (map_of (product_name_cols hs) n)),
                         parse_quantity B (row_get row (map_of (quantity_cols hs) n)))]
                  else []))" .
  from Cons.IH[OF this] show ?case by (cases "cells_present hs row n") simp_all
qed

lemma agg_inv_row: "agg_inv st os \<Longrightarrow> agg_inv (extract_row B hs st row) (os @ observed_row B hs row)"
  using agg_inv_groups[of st os B hs row "row_get row (order_col hs)" "group_nums hs"]
  by (simp add: extract_row_def observed_row_def Let_def)

lemma agg_inv_rows:
  "agg_inv st os \<Longrightarrow>
   agg_inv (foldl (extract_row B hs) st data) (os @ concat (map (observed_row B hs) data))"
proof (induction data arbitrary: st os)
  case Nil
  then show ?case by simp
next
  case (Cons row data)
  from Cons.IH[OF agg_inv_row[OF Cons.prems]] show ?case by simp
qed

lemma agg_inv_extract_rows: "agg_inv (extract_rows B hs data) (observed B hs data)"
proof -
  have "agg_inv \<lparr>extracted_rows = [], product_totals = [], product_has_numeric = [],
                 product_display_names = []\<rparr> ([] :: (ustring \<times> 'a option) list)"
    by (simp add: agg_inv_def numeric_quantities_def map_filter_simps)
  from agg_inv_rows[OF this] show ?thesis by (simp add: extract_rows_def observed_def)
qed

lemma total_for_product_key_inv:
  assumes "agg_inv st os"
  shows "total_for_product_key B st k =
     (if numeric_quantities k os = [] then PNone
      else format_number B (Some (foldl (+) 0 (numeric_quantities k os))))"
proof (cases "numeric_quantities k os = []")
  case True
  then show ?thesis using assms by (simp add: total_for_product_key_def dict_get_def agg_inv_def)
next
  case False
  then have "k \<in> fst ` set os" using numeric_quantities_unseen by blast
  then show ?thesis
    using False assms by (simp add: total_for_product_key_def dict_get_def agg_inv_def)
qed

text \<open>
  Claim C1. For every product key, the total displayed is the sum of the quantities of
  its records that parse as floats, added in the order of extraction from \<open>0.0\<close> and
  shown by \<open>format_number\<close>; a key none of whose records has a numeric quantity shows
  no value (\<open>None\<close>), not 0. The records extracted are the ones summed over.
\<close>

theorem total_is_sum_of_numeric_quantities:
  "total_for_product_key B (extract_rows B hs data) k =
     (if numeric_quantities k (observed B hs data) = [] then PNone
      else format_number B (Some (foldl (+) 0 (numeric_quantities k (observed B hs data))))) \<and>
   map product_key (extracted_rows (extract_rows B hs data)) = map fst (observed B hs data)"
  using total_for_product_key_inv[OF agg_inv_extract_rows, of B B hs data k]
    agg_inv_extract_rows[of B hs data]
  by (simp add: agg_inv_def)



section \<open>Properties of the output writer\<close>


lemma runs_Cons_hd: "\<exists>m rs. runs (x # xs) = (x, Suc m) # rs"
  by (cases "runs xs") (auto split: if_splits)

lemma runs_replicate: "runs (replicate (Suc n) c) = [(c, Suc n)]"
  by (induction n) auto

lemma runs_replicate_append:
  "x \<noteq> c \<Longrightarrow> runs (replicate (Suc n) c @ x # xs) = (c, Suc n) # runs (x # xs)"
proof (induction n)
  case 0
  obtain m rs where "runs (x # xs) = (x, Suc m) # rs" using runs_Cons_hd[of x xs] by auto
  with 0 show ?case by auto
next
  case (Suc n)
  have "runs (replicate (Suc (Suc n)) c @ x # xs) = runs (c # (replicate (Suc n) c @ x # xs))"
    by simp
  also have "\<dots> = (c, Suc (Suc n)) # runs (x # xs)"
    using Suc by (simp del: replicate.simps)
  finally show ?case .
qed

lemma runs_concat: "concat (map (\<lambda>(k, n). replicate n k) (runs ks)) = ks"
proof (induction ks)
  case Nil
  then show ?case by simp
next
  case (Cons x xs)
  then show ?case by (cases "runs xs") (auto split: if_splits)
qed

lemma runs_positive: "(k, n) \<in> set (runs ks) \<Longrightarrow> 1 \<le> n"
proof (induction ks arbitrary: k n)
  case Nil
  then show ?case by simp
next
  case (Cons x xs)
  then show ?case by (cases "runs xs") (auto split: if_splits)
qed

lemma runs_distinct_adj: "distinct_adj (map fst (runs ks))"
proof (induction ks)
  case Nil
  then show ?case by simp
next
  case (Cons x xs)
  then show ?case by (cases "runs xs") (auto split: if_splits)
qed

lemma total_column_append: "total_column (sheet_append sh r) = total_column sh @ [r ! 3]"
  by (simp add: total_column_def sheet_append_def)

lemma total_column_set_cell:
  assumes "\<forall>r\<in>set (rows sh). length r = 4" "s - 1 < length (rows sh)"
  shows "total_column (sheet_set_cell sh s 4 v) = (total_column sh)[s - 1 := v]"
proof -
  have "length (rows sh ! (s - 1)) = 4" using assms by simp
  then have "(rows sh ! (s - 1))[3 := v] ! 3 = v" by simp
  then show ?thesis
    by (simp add: total_column_def sheet_set_cell_def map_update)
qed

lemma rows_set_cell_length:
  assumes "\<forall>r\<in>set (rows sh). length r = 4"
  shows "\<forall>r\<in>set (rows (sheet_set_cell sh s c v)). length r = 4"
proof
  fix r assume "r \<in> set (rows (sheet_set_cell sh s c v))"
  then have "r \<in> set ((rows sh)[s - 1 := (rows sh ! (s - 1))[c - 1 := v]])"
    by (simp add: sheet_set_cell_def)
  then have "r = (rows sh ! (s - 1))[c - 1 := v] \<and> s - 1 < length (rows sh) \<or> r \<in> set (rows sh)"
    by (metis in_set_conv_nth length_list_update nth_list_update_eq nth_list_update_neq nth_mem)
  then show "length r = 4" using assms by auto
qed

lemma finalize_group_total_column:
  assumes "\<forall>r\<in>set (rows sh). length r = 4" "s - 1 < length (rows sh)"
  shows "total_column (finalize_group B st sh k s e) =
           (total_column sh)[s - 1 := total_for_product_key B st k]"
proof -
  have "total_column (merge_cells x a b c d) = total_column x" for x :: "'a sheet" and a b c d
    by (simp add: total_column_def merge_cells_def)
  then show ?thesis
    using total_column_set_cell[OF assms] by (simp add: finalize_group_def Let_def)
qed

lemma finalize_group_merged:
  "merged_cells (finalize_group B st sh k s e) =
     merged_cells sh @ (if s < e then [(s, 4, e, 4)] else [])"
  by (simp add: finalize_group_def Let_def merge_cells_def sheet_set_cell_def)

lemma finalize_group_rows:
  assumes "\<forall>r\<in>set (rows sh). length r = 4"
  shows "(\<forall>r\<in>set (rows (finalize_group B st sh k s e)). length r = 4) \<and>
         length (rows (finalize_group B st sh k s e)) = length (rows sh)"
proof -
  have 1: "rows (merge_cells x a b c d) = rows x" for x :: "'a sheet" and a b c d
    by (simp add: merge_cells_def)
  have 2: "length (rows (sheet_set_cell sh s 4 v)) = length (rows sh)" for v
    by (simp add: sheet_set_cell_def)
  show ?thesis
    using rows_set_cell_length[OF assms] 1 2 by (simp add: finalize_group_def Let_def)
qed

lemma write_item_same:
  "current_product_key ws = Some c \<Longrightarrow> product_key it = c \<Longrightarrow>
   write_item B st ws it =
     ws\<lparr>new_sheet := sheet_append (new_sheet ws)
                        [order_id it, product_name it, quantity_display it, PNone],
        excel_row := excel_row ws + 1\<rparr>"
  by (simp add: write_item_def Let_def)

lemma write_item_new:
  "current_product_key ws = Some c \<Longrightarrow> group_start_row ws = Some s \<Longrightarrow> product_key it \<noteq> c \<Longrightarrow>
   write_item B st ws it =
     ws\<lparr>new_sheet := sheet_append (finalize_group B st (new_sheet ws) c s (excel_row ws - 1))
                        [order_id it, product_name it, quantity_display it, PNone],
        current_product_key := Some (product_key it),
        group_start_row := Some (excel_row ws),
        excel_row := excel_row ws + 1\<rparr>"
  by (simp add: write_item_def Let_def)

lemma write_item_first:
  "current_product_key ws = None \<Longrightarrow>
   write_item B st ws it =
     ws\<lparr>new_sheet := sheet_append (new_sheet ws)
                        [order_id it, product_name it, quantity_display it, PNone],
        current_product_key := Some (product_key it),
        group_start_row := Some (excel_row ws),
        excel_row := excel_row ws + 1\<rparr>"
  by (simp add: write_item_def Let_def)


lemma merged_cells_append: "merged_cells (sheet_append sh r) = merged_cells sh"
  by (simp add: sheet_append_def)

lemma rows_append: "rows (sheet_append sh r) = rows sh @ [r]"
  by (simp add: sheet_append_def)

lemma length_total_column: "length (total_column sh) = length (rows sh)"
  by (simp add: total_column_def)

lemma write_loop:
  assumes "current_product_key ws = Some c" and "group_start_row ws = Some s"
    and "1 \<le> s" and "s < excel_row ws"
    and "length (rows (new_sheet ws)) = excel_row ws - 1"
    and "\<forall>r\<in>set (rows (new_sheet ws)). length r = 4"
    and "drop (s - 1) (total_column (new_sheet ws)) = replicate (excel_row ws - s) PNone"
  shows "total_column (finalize_last B st (foldl (write_item B st) ws its)) =
           take (s - 1) (total_column (new_sheet ws)) @
           concat (map (\<lambda>(k, a, b). total_for_product_key B st k # replicate (b - a) PNone)
             (place s (runs (replicate (excel_row ws - s) c @ map product_key its)))) \<and>
         merged_cells (finalize_last B st (foldl (write_item B st) ws its)) =
           merged_cells (new_sheet ws) @
           map (\<lambda>(k, a, b). (a, 4, b, 4))
             (filter (\<lambda>(k, a, b). a < b)
               (place s (runs (replicate (excel_row ws - s) c @ map product_key its))))"
  using assms
proof (induction its arbitrary: ws c s)
  case Nil
  let ?sh = "new_sheet ws"
  let ?e = "excel_row ws"
  obtain n where n: "?e - s = Suc n" using Nil.prems(4) by (metis Suc_diff_Suc)
  have e1: "?e - 1 - s = n" using n by simp
  have lt: "s - 1 < length (rows ?sh)" using Nil.prems by simp
  have fl: "finalize_last B st ws = finalize_group B st ?sh c s (?e - 1)"
    using Nil.prems by (simp add: finalize_last_def)
  have tc: "total_column (finalize_group B st ?sh c s (?e - 1)) =
              (total_column ?sh)[s - 1 := total_for_product_key B st c]"
    using finalize_group_total_column[OF Nil.prems(6) lt] .
  have dr: "drop (Suc (s - 1)) (total_column ?sh) = replicate n PNone"
  proof -
    have "drop (Suc (s - 1)) (total_column ?sh) = drop 1 (drop (s - 1) (total_column ?sh))"
      by simp
    also have "\<dots> = replicate n PNone" using Nil.prems(7) n by simp
    finally show ?thesis .
  qed
  have up: "(total_column ?sh)[s - 1 := total_for_product_key B st c] =
              take (s - 1) (total_column ?sh) @ total_for_product_key B st c # replicate n PNone"
    using lt dr by (simp add: upd_conv_take_nth_drop length_total_column)
  have sn: "s + Suc n - 1 = ?e - 1" using n Nil.prems(4) by simp
  have sm: "(s < ?e - 1) = (s < s + Suc n - 1)" using sn by simp
  show ?case
    using sm n Nil.prems(4)
    by (auto simp add: fl tc up runs_replicate finalize_group_merged e1 sn
        simp del: replicate.simps One_nat_def)
next
  case (Cons it its)
  let ?sh = "new_sheet ws"
  let ?e = "excel_row ws"
  let ?row = "[order_id it, product_name it, quantity_display it, PNone]"
  obtain n where n: "?e - s = Suc n" using Cons.prems(4) by (metis Suc_diff_Suc)
  have lt: "s - 1 < length (rows ?sh)" using Cons.prems by simp
  have le: "s - 1 \<le> length (total_column ?sh)" using lt by (simp add: length_total_column)
  show ?case
  proof (cases "product_key it = c")
    case True
    let ?ws = "ws\<lparr>new_sheet := sheet_append ?sh ?row, excel_row := ?e + 1\<rparr>"
    have w: "write_item B st ws it = ?ws"
      using write_item_same[OF Cons.prems(1) True] .
    have p1: "current_product_key ?ws = Some c" using Cons.prems(1) by simp
    have p2: "group_start_row ?ws = Some s" using Cons.prems(2) by simp
    have p4: "s < excel_row ?ws" using Cons.prems(4) by simp
    have p5: "length (rows (new_sheet ?ws)) = excel_row ?ws - 1"
      using Cons.prems by (simp add: rows_append)
    have p6: "\<forall>r\<in>set (rows (new_sheet ?ws)). length r = 4"
      using Cons.prems(6) by (simp add: rows_append)
    have p7: "drop (s - 1) (total_column (new_sheet ?ws)) = replicate (excel_row ?ws - s) PNone"
    proof -
      have "drop (s - 1) (total_column (new_sheet ?ws)) =
              drop (s - 1) (total_column ?sh) @ [PNone]"
        using le by (simp add: total_column_append)
      also have "\<dots> = replicate (Suc n) PNone @ [PNone]" using Cons.prems(7) n by simp
      also have "\<dots> = replicate (Suc (Suc n)) PNone" by (simp add: replicate_append_same)
      also have "Suc (Suc n) = excel_row ?ws - s" using n Cons.prems(4) by simp
      finally show ?thesis .
    qed
    have tk: "take (s - 1) (total_column (new_sheet ?ws)) = take (s - 1) (total_column ?sh)"
      using le by (simp add: total_column_append)
    have rp: "replicate (excel_row ?ws - s) c @ map product_key its =
              replicate (?e - s) c @ map product_key (it # its)"
    proof -
      have "excel_row ?ws - s = Suc (?e - s)" using Cons.prems(4) by simp
      then show ?thesis using True by (simp add: replicate_append_same)
    qed
    from Cons.IH[OF p1 p2 Cons.prems(3) p4 p5 p6 p7]
    show ?thesis
      unfolding rp tk by (simp add: w merged_cells_append del: One_nat_def)
  next
    case False
    let ?fin = "finalize_group B st ?sh c s (?e - 1)"
    let ?ws = "ws\<lparr>new_sheet := sheet_append ?fin ?row,
                   current_product_key := Some (product_key it),
                   group_start_row := Some ?e,
                   excel_row := ?e + 1\<rparr>"
    have w: "write_item B st ws it = ?ws"
      using write_item_new[OF Cons.prems(1) Cons.prems(2) False] .
    note fr = finalize_group_rows[OF Cons.prems(6), of B st c s "?e - 1"]
    have tcf: "total_column ?fin = (total_column ?sh)[s - 1 := total_for_product_key B st c]"
      using finalize_group_total_column[OF Cons.prems(6) lt] .
    have dr: "drop (Suc (s - 1)) (total_column ?sh) = replicate n PNone"
    proof -
      have "drop (Suc (s - 1)) (total_column ?sh) = drop 1 (drop (s - 1) (total_column ?sh))"
        by simp
      also have "\<dots> = replicate n PNone" using Cons.prems(7) n by simp
      finally show ?thesis .
    qed
    have up: "total_column ?fin =
              take (s - 1) (total_column ?sh) @ total_for_product_key B st c # replicate n PNone"
      unfolding tcf using lt dr by (simp add: upd_conv_take_nth_drop length_total_column)
    have lf: "length (total_column ?fin) = ?e - 1"
      using fr Cons.prems(5) by (simp add: length_total_column)
    have p1: "current_product_key ?ws = Some (product_key it)" by simp
    have p2: "group_start_row ?ws = Some ?e" by simp
    have p3: "1 \<le> ?e" using Cons.prems by simp
    have p4: "?e < excel_row ?ws" by simp
    have p5: "length (rows (new_sheet ?ws)) = excel_row ?ws - 1"
      using fr Cons.prems by (simp add: rows_append)
    have p6: "\<forall>r\<in>set (rows (new_sheet ?ws)). length r = 4"
      using fr by (simp add: rows_append)
    have p7: "drop (?e - 1) (total_column (new_sheet ?ws)) = replicate (excel_row ?ws - ?e) PNone"
      using lf by (simp add: total_column_append)
    have tk: "take (?e - 1) (total_column (new_sheet ?ws)) = total_column ?fin"
      using lf by (simp add: total_column_append)
    have rn: "runs (replicate (?e - s) c @ map product_key (it # its)) =
              (c, Suc n) # runs (product_key it # map product_key its)"
      using runs_replicate_append[OF False, of n "map product_key its"] n by simp
    have one: "replicate (excel_row ?ws - ?e) (product_key it) @ map product_key its =
               product_key it # map product_key its" by simp
    have sn: "Suc (s + n) = ?e" using n Cons.prems(4) by simp
    have sn1: "s + Suc n - 1 = ?e - 1" using sn by simp
    have mg: "merged_cells (new_sheet ?ws) =
              merged_cells ?sh @ (if s < ?e - 1 then [(s, 4, ?e - 1, 4)] else [])"
      by (simp add: merged_cells_append finalize_group_merged)
    have en: "?e - 1 - s = n" using n by simp
    from Cons.IH[OF p1 p2 p3 p4 p5 p6 p7]
    show ?thesis
      unfolding one tk mg rn up
      using n Cons.prems(4)
      by (auto simp add: w sn sn1 en simp del: replicate.simps runs.simps One_nat_def)
  qed
qed

lemma write_items_Nil:
  "total_column (write_items B st []) = [PStr (u ''Total Quantity'')] \<and>
   merged_cells (write_items B st []) = []"
  by (simp add: write_items_def finalize_last_def writer_init_def cleaned_header_def
      total_column_def header_titles_def)

lemma write_items_Cons:
  "total_column (write_items B st (it # its)) =
     PStr (u ''Total Quantity'') #
     concat (map (\<lambda>(k, a, b). total_for_product_key B st k # replicate (b - a) PNone)
       (place 2 (runs (map product_key (it # its))))) \<and>
   merged_cells (write_items B st (it # its)) =
     map (\<lambda>(k, a, b). (a, 4, b, 4))
       (filter (\<lambda>(k, a, b). a < b) (place 2 (runs (map product_key (it # its)))))"
proof -
  let ?hdr = "cleaned_header () :: 'a sheet"
  let ?row = "[order_id it, product_name it, quantity_display it, PNone]"
  let ?ws = "(writer_init ?hdr)\<lparr>new_sheet := sheet_append ?hdr ?row,
                current_product_key := Some (product_key it),
                group_start_row := Some 2,
                excel_row := 3\<rparr>"
  have w: "write_item B st (writer_init ?hdr) it = ?ws"
    using write_item_first[of "writer_init ?hdr" B st it] by (simp add: writer_init_def)
  have tc: "total_column (new_sheet ?ws) = [PStr (u ''Total Quantity''), PNone]"
    by (simp add: total_column_def sheet_append_def cleaned_header_def header_titles_def)
  have p1: "current_product_key ?ws = Some (product_key it)" by simp
  have p2: "group_start_row ?ws = Some 2" by simp
  have p3: "(1::nat) \<le> 2" by simp
  have p4: "2 < excel_row ?ws" by simp
  have p5: "length (rows (new_sheet ?ws)) = excel_row ?ws - 1"
    by (simp add: sheet_append_def cleaned_header_def)
  have p6: "\<forall>r\<in>set (rows (new_sheet ?ws)). length r = 4"
    by (simp add: sheet_append_def cleaned_header_def header_titles_def)
  have p7: "drop (2 - 1) (total_column (new_sheet ?ws)) = replicate (excel_row ?ws - 2) PNone"
    unfolding tc by simp
  have mc: "merged_cells (new_sheet ?ws) = []"
    by (simp add: sheet_append_def cleaned_header_def)
  have rp: "replicate (excel_row ?ws - 2) (product_key it) @ map product_key its =
            map product_key (it # its)" by simp
  have tk: "take (2 - 1) (total_column (new_sheet ?ws)) = [PStr (u ''Total Quantity'')]"
    unfolding tc by simp
  have f: "write_items B st (it # its) = finalize_last B st (foldl (write_item B st) ?ws its)"
    by (simp add: write_items_def w)
  from write_loop[OF p1 p2 p3 p4 p5 p6 p7, of B st its]
  show ?thesis unfolding rp tk mc f by simp
qed

text \<open>
  Claim C3. The rows written after the header are cut into the maximal runs of equal
  product keys, placed from row 2 on. The total column holds, for each run, the
  aggregator's total for the key in the run's first row and nothing in its other rows;
  and the merged ranges are exactly one range of the total column per run of two rows or
  more, from the run's first row to its last, and none for a run of one row. The runs are
  maximal: they make up the keys in order, none is empty, and neighbours differ.
\<close>

theorem total_written_once_per_run:
  "total_column (write_items B st its) =
     PStr (u ''Total Quantity'') #
     concat (map (\<lambda>(k, a, b). total_for_product_key B st k # replicate (b - a) PNone)
       (place 2 (runs (map product_key its)))) \<and>
   merged_cells (write_items B st its) =
     map (\<lambda>(k, a, b). (a, 4, b, 4))
       (filter (\<lambda>(k, a, b). a < b) (place 2 (runs (map product_key its)))) \<and>
   concat (map (\<lambda>(k, n). replicate n k) (runs (map product_key its))) = map product_key its \<and>
   (\<forall>(k, n)\<in>set (runs (map product_key its)). 1 \<le> n) \<and>
   distinct_adj (map fst (runs (map product_key its)))"
proof -
  have 1: "total_column (write_items B st its) =
     PStr (u ''Total Quantity'') #
     concat (map (\<lambda>(k, a, b). total_for_product_key B st k # replicate (b - a) PNone)
       (place 2 (runs (map product_key its)))) \<and>
   merged_cells (write_items B st its) =
     map (\<lambda>(k, a, b). (a, 4, b, 4))
       (filter (\<lambda>(k, a, b). a < b) (place 2 (runs (map product_key its))))"
  proof (cases its)
    case Nil
    then show ?thesis using write_items_Nil[of B st] by simp
  next
    case (Cons it rest)
    then show ?thesis using write_items_Cons[of B st it rest] by simp
  qed
  have 2: "\<forall>(k, n)\<in>set (runs (map product_key its)). 1 \<le> n"
    using runs_positive by fastforce
  show ?thesis using 1 2 runs_concat runs_distinct_adj by blast
qed

theorem total_written_once_per_run_witness:
  "total_column (write_items test_builtins
     \<lparr>extracted_rows = [], product_totals = [(u ''widget'', 5), (u ''gadget'', 0)],
      product_has_numeric = [(u ''widget'', True)], product_display_names = []\<rparr>
     [\<lparr>product_key = u ''gadget'', order_id = PStr (u ''A3''), product_name = PStr (u ''Gadget''),
       quantity_display = PNone, row_index = 2\<rparr>,
      \<lparr>product_key = u ''widget'', order_id = PStr (u ''A1''), product_name = PStr (u ''Widget''),
       quantity_display = PInt 3, row_index = 0\<rparr>,
      \<lparr>product_key = u ''widget'', order_id = PStr (u ''A2''), product_name = PStr (u ''widget''),
       quantity_display = PInt 2, row_index = 1\<rparr>]) =
     [PStr (u ''Total Quantity''), PNone, PInt 5, PNone] \<and>
   merged_cells (write_items test_builtins
     \<lparr>extracted_rows = [], product_totals = [(u ''widget'', 5), (u ''gadget'', 0)],
      product_has_numeric = [(u ''widget'', True)], product_display_names = []\<rparr>
     [\<lparr>product_key = u ''gadget'', order_id = PStr (u ''A3''), product_name = PStr (u ''Gadget''),
       quantity_display = PNone, row_index = 2\<rparr>,
      \<lparr>product_key = u ''widget'', order_id = PStr (u ''A1''), product_name = PStr (u ''Widget''),
       quantity_display = PInt 3, row_index = 0\<rparr>,
      \<lparr>product_key = u ''widget'', order_id = PStr (u ''A2''), product_name = PStr (u ''widget''),
       quantity_display = PInt 2, row_index = 1\<rparr>]) =
     [(3, 4, 4, 4)]"
proof -
  let ?st = "\<lparr>extracted_rows = [], product_totals = [(u ''widget'', 5), (u ''gadget'', 0)],
      product_has_numeric = [(u ''widget'', True)], product_display_names = []\<rparr>
      :: int extract_state"
  have ne: "u ''gadget'' \<noteq> u ''widget''" by (simp add: u_simps)
  have r: "runs [u ''gadget'', u ''widget'', u ''widget''] =
             [(u ''gadget'', 1), (u ''widget'', 2)]"
    using ne by simp
  have tg: "total_for_product_key test_builtins ?st (u ''gadget'') = PNone"
    using ne by (simp add: total_for_product_key_def dict_get_def)
  have tw: "total_for_product_key test_builtins ?st (u ''widget'') = PInt 5"
    by (simp add: total_for_product_key_def dict_get_def test_format)
  show ?thesis
    using total_written_once_per_run[of test_builtins ?st
      "[\<lparr>product_key = u ''gadget'', order_id = PStr (u ''A3''), product_name = PStr (u ''Gadget''),
       quantity_display = PNone, row_index = 2\<rparr>,
      \<lparr>product_key = u ''widget'', order_id = PStr (u ''A1''), product_name = PStr (u ''Widget''),
       quantity_display = PInt 3, row_index = 0\<rparr>,
      \<lparr>product_key = u ''widget'', order_id = PStr (u ''A2''), product_name = PStr (u ''widget''),
       quantity_display = PInt 2, row_index = 1\<rparr>]"]
    by (simp add: r tg tw numeral_2_eq_2 numeral_3_eq_3 del: runs.simps)
qed


section \<open>Properties of the sort\<close>

lemma sort_items_sorted: "sorted (map (sort_key_item B) (sort_items B its))"
  by (simp add: sort_items_def)

lemma sort_items_pair:
  "sort_key_item B b < sort_key_item B a \<Longrightarrow> sort_items B [a, b] = [b, a]"
  by (simp add: sort_items_def)

text \<open>
  Claim C2. The output is sorted by the key of \<open>sort_key\<close>, in which the empty product
  key is replaced by the single code point U+FFFF; that sentinel is not above every key.
  A product named with the one character U+20BB7 has that character as its key, and a
  record with the empty key sorts before it, not after.
\<close>

theorem empty_key_sorts_before_astral_key:
  "sorted (map (sort_key_item B) (sort_items B its)) \<and>
   normalize_product_name test_builtins (PStr [134071]) = [134071] \<and>
   sort_items B
     [\<lparr>product_key = [134071], order_id = a, product_name = PStr [134071],
       quantity_display = q, row_index = 0\<rparr>,
      \<lparr>product_key = [], order_id = b, product_name = PNone,
       quantity_display = r, row_index = 1\<rparr>] =
     [\<lparr>product_key = [], order_id = b, product_name = PNone,
       quantity_display = r, row_index = 1\<rparr>,
      \<lparr>product_key = [134071], order_id = a, product_name = PStr [134071],
       quantity_display = q, row_index = 0\<rparr>]"
proof -
  have sp: "\<not> is_space 134071" by (simp add: is_space_def)
  have lc: "lower_cp 134071 = 134071" by (simp add: lower_cp_def)
  have n: "normalize_product_name test_builtins (PStr [134071]) = [134071]"
    by (simp add: normalize_product_name_def test_builtins_def strip_def lower_def lc sp)
  have l1: "[65535::nat] < [134071]" by simp
  have lt: "sort_key_item B \<lparr>product_key = [], order_id = b, product_name = PNone,
       quantity_display = r, row_index = 1\<rparr> <
     sort_key_item B \<lparr>product_key = [134071], order_id = a, product_name = PStr [134071],
       quantity_display = q, row_index = 0\<rparr>"
    unfolding sort_key_item_def using l1 by (simp add: less_prod_def del: Cons_less_Cons)
  show ?thesis using sort_items_sorted n sort_items_pair[OF lt] by simp
qed


section \<open>Properties of the summary\<close>





















section \<open>The properties on an example\<close>

lemma norm_gizmo: "normalize_product_name test_builtins (PStr (u ''Gizmo'')) = u ''gizmo''"
  by (simp add: normalize_product_name_def test_builtins_def u_simps strip_def lower_def
      lower_cp_def is_space_def)

lemma norm_gadget: "normalize_product_name test_builtins (PStr (u ''Gadget'')) = u ''gadget''"
  by (simp add: normalize_product_name_def test_builtins_def u_simps strip_def lower_def
      lower_cp_def is_space_def)

lemma norm_widget_lower: "normalize_product_name test_builtins (PStr (u ''widget'')) = u ''widget''"
  by (simp add: normalize_product_name_def test_builtins_def u_simps strip_def lower_def
      lower_cp_def is_space_def)

lemma example_keys:
  "u ''widget'' \<noteq> u ''gizmo''" "u ''gizmo'' \<noteq> u ''widget''"
  "u ''widget'' \<noteq> u ''gadget''" "u ''gadget'' \<noteq> u ''widget''"
  "u ''gizmo'' \<noteq> u ''gadget''" "u ''gadget'' \<noteq> u ''gizmo''"
  "u ''widget'' \<noteq> []" "u ''gizmo'' \<noteq> []" "u ''gadget'' \<noteq> []"
  by (simp_all add: u_simps)



lemma example_observed:
  "observed test_builtins
     \<lparr>product_name_cols = [(2, 1)], quantity_cols = [(2, 2)], order_col = Some 0\<rparr>
     [[PStr (u ''A1''), PStr (u ''Widget''), PInt 3],
      [PStr (u ''A2''), PStr (u ''Gizmo''), PInt 7],
      [PStr (u ''A3''), PStr (u ''widget''), PInt 2],
      [PStr (u ''A4''), PStr (u ''Gadget''), PNone]] =
   [(u ''widget'', Some 3), (u ''gizmo'', Some 7), (u ''widget'', Some 2), (u ''gadget'', None)]"
  by (simp add: observed_def observed_row_def cells_present_def group_nums_def row_get_def
      parse_quantity_def test_float norm_widget norm_gizmo norm_gadget norm_widget_lower
      del: One_nat_def)

theorem total_is_sum_of_numeric_quantities_witness:
  "total_for_product_key test_builtins
     (extract_rows test_builtins
        \<lparr>product_name_cols = [(2, 1)], quantity_cols = [(2, 2)], order_col = Some 0\<rparr>
        [[PStr (u ''A1''), PStr (u ''Widget''), PInt 3],
         [PStr (u ''A2''), PStr (u ''Gizmo''), PInt 7],
         [PStr (u ''A3''), PStr (u ''widget''), PInt 2],
         [PStr (u ''A4''), PStr (u ''Gadget''), PNone]])
     (u ''widget'') = PInt 5 \<and>
   total_for_product_key test_builtins
     (extract_rows test_builtins
        \<lparr>product_name_cols = [(2, 1)], quantity_cols = [(2, 2)], order_col = Some 0\<rparr>
        [[PStr (u ''A1''), PStr (u ''Widget''), PInt 3],
         [PStr (u ''A2''), PStr (u ''Gizmo''), PInt 7],
         [PStr (u ''A3''), PStr (u ''widget''), PInt 2],
         [PStr (u ''A4''), PStr (u ''Gadget''), PNone]])
     (u ''gadget'') = PNone"
proof -
  let ?os = "[(u ''widget'', Some 3), (u ''gizmo'', Some 7), (u ''widget'', Some 2),
              (u ''gadget'', None)] :: (ustring \<times> int option) list"
  have w: "numeric_quantities (u ''widget'') ?os = [3, 2]"
    by (simp add: numeric_quantities_def map_filter_simps example_keys)
  have g: "numeric_quantities (u ''gadget'') ?os = []"
    by (simp add: numeric_quantities_def map_filter_simps example_keys)
  show ?thesis
    using total_is_sum_of_numeric_quantities[of test_builtins
        "\<lparr>product_name_cols = [(2, 1)], quantity_cols = [(2, 2)], order_col = Some 0\<rparr>"
        "[[PStr (u ''A1''), PStr (u ''Widget''), PInt 3],
         [PStr (u ''A2''), PStr (u ''Gizmo''), PInt 7],
         [PStr (u ''A3''), PStr (u ''widget''), PInt 2],
         [PStr (u ''A4''), PStr (u ''Gadget''), PNone]]" "u ''widget''"]
      total_is_sum_of_numeric_quantities[of test_builtins
        "\<lparr>product_name_cols = [(2, 1)], quantity_cols = [(2, 2)], order_col = Some 0\<rparr>"
        "[[PStr (u ''A1''), PStr (u ''Widget''), PInt 3],
         [PStr (u ''A2''), PStr (u ''Gizmo''), PInt 7],
         [PStr (u ''A3''), PStr (u ''widget''), PInt 2],
         [PStr (u ''A4''), PStr (u ''Gadget''), PNone]]" "u ''gadget''"]
    unfolding example_observed w g
    by (simp add: test_format)
qed

section \<open>Properties of normalisation under the Unicode database\<close>

lemma lower_settles_image:
  "lower_settles U \<Longrightarrow> c \<noteq> 931 \<Longrightarrow> d \<in> set (to_lower_full U c) \<Longrightarrow>
     d \<noteq> 931 \<and> to_lower_full U d = [d]"
  unfolding lower_settles_def by blast

lemma lower_settles_sigma:
  "lower_settles U \<Longrightarrow> to_lower_full U 962 = [962] \<and> to_lower_full U 963 = [963]"
  unfolding lower_settles_def by blast

lemma lower_at_settled:
  assumes "lower_settles U" and "i < length s" and "d \<in> set (lower_at U s i)"
  shows "d \<noteq> 931 \<and> to_lower_full U d = [d]"
proof (cases "s ! i = 931")
  case True
  then have "lower_at U s i = [962] \<or> lower_at U s i = [963]"
    by (simp add: lower_at_def)
  then have "d = 962 \<or> d = 963" using assms(3) by auto
  then show ?thesis using lower_settles_sigma[OF assms(1)] by auto
next
  case False
  then have "d \<in> set (to_lower_full U (s ! i))" using assms(3) by (simp add: lower_at_def)
  then show ?thesis using lower_settles_image[OF assms(1) False] by blast
qed

lemma py_lower_settled:
  assumes "lower_settles U" and "d \<in> set (py_lower U s)"
  shows "d \<noteq> 931 \<and> to_lower_full U d = [d]"
proof -
  from assms(2) obtain i where "i < length s" "d \<in> set (lower_at U s i)"
    by (auto simp: py_lower_def)
  then show ?thesis using lower_at_settled[OF assms(1)] by blast
qed

lemma concat_singletons: "concat (map (\<lambda>i. [f i]) xs) = map f xs"
  by (induction xs) simp_all

lemma py_lower_fixed:
  assumes "\<forall>d\<in>set k. d \<noteq> 931 \<and> to_lower_full U d = [d]"
  shows "py_lower U k = k"
proof -
  have "lower_at U k i = [k ! i]" if "i < length k" for i
    using assms that by (simp add: lower_at_def)
  then have m: "map (lower_at U k) [0..<length k] = map (\<lambda>i. [k ! i]) [0..<length k]"
    by simp
  have "py_lower U k = concat (map (\<lambda>i. [k ! i]) [0..<length k])"
    by (simp only: py_lower_def m)
  also have "\<dots> = map (\<lambda>i. k ! i) [0..<length k]"
    by (rule concat_singletons)
  also have "\<dots> = k" by (rule map_nth)
  finally show ?thesis .
qed

lemma header_key_py_idem:
  assumes "lower_settles U"
  shows "header_key_py U (header_key_py U x) = header_key_py U x"
proof -
  let ?k = "header_key_py U x"
  have ns: "\<forall>c\<in>set ?k. \<not> is_sep c" by (simp add: header_key_py_def)
  then have "\<forall>c\<in>set ?k. \<not> is_space c" by (simp add: is_sep_def)
  then have s: "strip ?k = ?k" by (rule strip_no_space)
  have "\<forall>d\<in>set ?k. d \<noteq> 931 \<and> to_lower_full U d = [d]"
    using py_lower_settled[OF assms] by (auto simp: header_key_py_def)
  then have l: "py_lower U ?k = ?k" by (rule py_lower_fixed)
  have "filter (\<lambda>c. \<not> is_sep c) ?k = ?k" using ns by simp
  then show ?thesis by (subst header_key_py_def) (simp add: s l)
qed

lemma py_lower_ascii:
  assumes "lower_ascii U" and "\<forall>c\<in>set s. c < 128"
  shows "py_lower U s = lower s"
proof -
  have "lower_at U s i = [lower_cp (s ! i)]" if "i < length s" for i
  proof -
    from that assms(2) have "s ! i < 128" by simp
    then show ?thesis using assms(1) by (simp add: lower_at_def lower_ascii_def)
  qed
  then have m: "map (lower_at U s) [0..<length s] = map (\<lambda>i. [lower_cp (s ! i)]) [0..<length s]"
    by simp
  have "py_lower U s = concat (map (\<lambda>i. [lower_cp (s ! i)]) [0..<length s])"
    by (simp only: py_lower_def m)
  also have "\<dots> = map (\<lambda>i. lower_cp (s ! i)) [0..<length s]"
    by (rule concat_singletons)
  also have "\<dots> = map lower_cp (map (\<lambda>i. s ! i) [0..<length s])" by (simp add: o_def)
  also have "\<dots> = map lower_cp s" by (simp add: map_nth)
  finally show ?thesis by (simp add: lower_def)
qed

lemma strip_subset: "set (strip s) \<subseteq> set s"
proof -
  have "set (strip s) \<subseteq> set (dropWhile is_space s)"
    unfolding strip_def using set_dropWhileD by fastforce
  then show ?thesis using set_dropWhileD by fastforce
qed

lemma normalize_header_py_ascii:
  assumes "lower_ascii U" and "\<forall>c\<in>set s. c < 128"
  shows "normalize_header_py U s = normalize_header s"
proof -
  have "\<forall>c\<in>set (strip s). c < 128" using assms(2) strip_subset by blast
  then have "py_lower U (strip s) = lower (strip s)" by (rule py_lower_ascii[OF assms(1)])
  then show ?thesis
    by (simp add: normalize_header_py_def header_key_py_def normalize_header_def header_key_def)
qed

lemma u_ascii_order_id: "\<forall>c\<in>set (u ''order_id''). c < 128" by (simp add: u_simps)
lemma u_ascii_quantity: "\<forall>c\<in>set (u ''quantity''). c < 128" by (simp add: u_simps)
lemma u_ascii_total_quantity: "\<forall>c\<in>set (u ''total_quantity''). c < 128" by (simp add: u_simps)

lemma alias_values_py:
  assumes "lower_ascii U" and "map_of HEADER_ALIASES k = Some v"
  shows "normalize_header_py U v = v"
  using alias_range[OF assms(2)]
    normalize_header_py_ascii[OF assms(1) u_ascii_order_id]
    normalize_header_py_ascii[OF assms(1) u_ascii_quantity]
    normalize_header_py_ascii[OF assms(1) u_ascii_total_quantity]
    normalize_order_id normalize_quantity normalize_total_quantity
  by auto

text \<open>
  Claim C7. Header normalisation is idempotent: normalising a normalised header changes
  nothing, for every string of code points, with the lower-casing of CPython on all of
  Unicode. It is alias-stable: the headers "Order ID", "orderid" and "ORDER_ID" normalise
  to the same key. Of the Unicode database the proof uses that the code points of a
  lower-case mapping are lower case themselves, and the mapping of ASCII.
\<close>

theorem normalize_header_py_idempotent_alias_stable:
  assumes "lower_settles U" and "lower_ascii U"
  shows "normalize_header_py U (normalize_header_py U x) = normalize_header_py U x \<and>
         normalize_header_py U (u ''Order ID'') = normalize_header_py U (u ''orderid'') \<and>
         normalize_header_py U (u ''orderid'') = normalize_header_py U (u ''ORDER_ID'')"
proof -
  have idem: "normalize_header_py U (normalize_header_py U x) = normalize_header_py U x"
  proof (cases "map_of HEADER_ALIASES (header_key_py U x)")
    case None
    then show ?thesis
      by (simp add: normalize_header_py_def dict_get_def header_key_py_idem[OF assms(1)])
  next
    case (Some v)
    then have "normalize_header_py U x = v" by (simp add: normalize_header_py_def dict_get_def)
    with alias_values_py[OF assms(2) Some] show ?thesis by simp
  qed
  have a: "normalize_header_py U (u ''Order ID'') = u ''order_id''"
  proof -
    have "\<forall>c\<in>set (u ''Order ID''). c < 128" by (simp add: u_simps)
    from normalize_header_py_ascii[OF assms(2) this] show ?thesis by (simp add: norm_order_id_sp)
  qed
  have b: "normalize_header_py U (u ''orderid'') = u ''order_id''"
  proof -
    have "\<forall>c\<in>set (u ''orderid''). c < 128" by (simp add: u_simps)
    moreover have "normalize_header (u ''orderid'') = u ''order_id''"
      by (simp add: header_defs u_simps)
    ultimately show ?thesis using normalize_header_py_ascii[OF assms(2)] by simp
  qed
  have c: "normalize_header_py U (u ''ORDER_ID'') = u ''order_id''"
  proof -
    have "\<forall>c\<in>set (u ''ORDER_ID''). c < 128" by (simp add: u_simps)
    moreover have "normalize_header (u ''ORDER_ID'') = u ''order_id''"
      by (simp add: header_defs u_simps)
    ultimately show ?thesis using normalize_header_py_ascii[OF assms(2)] by simp
  qed
  show ?thesis using idem a b c by simp
qed

lemma ascii_lower_settles: "lower_settles ascii_unicode"
  unfolding lower_settles_def by (simp add: ascii_unicode_def lower_cp_def)

lemma ascii_lower_ascii: "lower_ascii ascii_unicode"
  by (simp add: lower_ascii_def ascii_unicode_def)

theorem normalize_header_py_idempotent_alias_stable_witness:
  "normalize_header_py ascii_unicode (normalize_header_py ascii_unicode (u ''Order ID'')) =
     normalize_header_py ascii_unicode (u ''Order ID'') \<and>
   normalize_header_py ascii_unicode (u ''Order ID'') =
     normalize_header_py ascii_unicode (u ''orderid'') \<and>
   normalize_header_py ascii_unicode (u ''orderid'') =
     normalize_header_py ascii_unicode (u ''ORDER_ID'')"
  by (rule normalize_header_py_idempotent_alias_stable
          [OF ascii_lower_settles ascii_lower_ascii, of "u ''Order ID''"])

section \<open>Properties of header resolution under the Unicode database\<close>




lemma filter_upt_snoc:
  "filter P [0..<Suc m] = filter P [0..<m] @ (if P m then [m] else [])"
  by simp









lemma name_match_py_not_qty:
  "name_match_py U (u ''quantity'' @ t) = None"
  "name_match_py U (u ''productquantity'' @ t) = None"
  by (simp_all add: name_match_py_def match_prefix_digits_py_def u_simps)

lemma qty_match_py_not_name: "qty_match_py U (u ''productname'' @ t) = None"
  by (simp add: qty_match_py_def match_prefix_digits_py_def u_simps)



































end
